theory Spec2Isabelle
  imports Complex_Main
begin

section \<open>The viewport controller of PdfViewer.tsx\<close>

text \<open>
  The component keeps zoom, pan and page state of a rendered document and interprets
  wheel, pointer and keyboard input. JavaScript numbers are modelled as reals: the
  arithmetic of the source is read without rounding. The zoom handlers divide by the
  current scale, which is 0 after a fit in a viewport 48 pixels wide or high; the
  coordinates of the translate, which take the result, are therefore numbers that may
  be infinite or NaN (\<open>jsnum\<close> below). Page sizes are taken to be positive wherever
  a statement depends on a division by them.
  Time stamps of \<^verbatim>\<open>Date.now()\<close> are integers (milliseconds), those of
  \<^verbatim>\<open>performance.now()\<close> and of animation frames are reals.
  The refs that mirror React state (\<^verbatim>\<open>scaleRef\<close>, \<^verbatim>\<open>translateRef\<close>,
  \<^verbatim>\<open>currentPageRef\<close>, \<^verbatim>\<open>svgDocRef\<close>, \<^verbatim>\<open>isFitModeRef\<close>) are read as the state
  they mirror: every handler sees the values committed by the handlers before it.
\<close>

subsection \<open>Data\<close>

record SvgDocument =
  pages :: "string list"
  width_pt :: real
  height_pt :: real

record Viewport =
  width :: real
  height :: real

text \<open>
  A JavaScript number that need not be finite: a finite value (read as a real),
  \<^verbatim>\<open>Infinity\<close>, \<^verbatim>\<open>-Infinity\<close> or \<^verbatim>\<open>NaN\<close>, with the arithmetic of IEEE 754 as far as
  the source uses it. The real 0 is read as the positive zero.
\<close>

datatype jsnum = Num real | PosInf | NegInf | NaN

text \<open>The infinity with the sign of \<open>r\<close>, and NaN for \<open>r = 0\<close>: the value of
  \<^verbatim>\<open>r * Infinity\<close> and of \<^verbatim>\<open>r / 0\<close>.\<close>

definition js_inf :: "real \<Rightarrow> jsnum" where
  "js_inf r = (if r > 0 then PosInf else if r < 0 then NegInf else NaN)"

text \<open>\<^verbatim>\<open>a / b\<close> for finite \<open>a\<close> and \<open>b\<close>.\<close>

definition js_div :: "real \<Rightarrow> real \<Rightarrow> jsnum" where
  "js_div a b = (if b = 0 then js_inf a else Num (a / b))"

fun js_add :: "jsnum \<Rightarrow> jsnum \<Rightarrow> jsnum" where
  "js_add (Num a) (Num b) = Num (a + b)"
| "js_add NaN _ = NaN"
| "js_add _ NaN = NaN"
| "js_add PosInf NegInf = NaN"
| "js_add NegInf PosInf = NaN"
| "js_add PosInf _ = PosInf"
| "js_add _ PosInf = PosInf"
| "js_add NegInf _ = NegInf"
| "js_add _ NegInf = NegInf"

fun js_sub :: "jsnum \<Rightarrow> jsnum \<Rightarrow> jsnum" where
  "js_sub (Num a) (Num b) = Num (a - b)"
| "js_sub NaN _ = NaN"
| "js_sub _ NaN = NaN"
| "js_sub PosInf PosInf = NaN"
| "js_sub NegInf NegInf = NaN"
| "js_sub PosInf _ = PosInf"
| "js_sub _ PosInf = NegInf"
| "js_sub NegInf _ = NegInf"
| "js_sub _ NegInf = PosInf"

fun js_mul :: "jsnum \<Rightarrow> jsnum \<Rightarrow> jsnum" where
  "js_mul (Num a) (Num b) = Num (a * b)"
| "js_mul NaN _ = NaN"
| "js_mul _ NaN = NaN"
| "js_mul PosInf (Num b) = js_inf b"
| "js_mul (Num a) PosInf = js_inf a"
| "js_mul NegInf (Num b) = js_inf (- b)"
| "js_mul (Num a) NegInf = js_inf (- a)"
| "js_mul PosInf PosInf = PosInf"
| "js_mul NegInf NegInf = PosInf"
| "js_mul PosInf NegInf = NegInf"
| "js_mul NegInf PosInf = NegInf"

text \<open>\<^verbatim>\<open>Math.max\<close> and \<^verbatim>\<open>Math.min\<close>: NaN when an argument is NaN.\<close>

fun js_max :: "jsnum \<Rightarrow> jsnum \<Rightarrow> jsnum" where
  "js_max (Num a) (Num b) = Num (max a b)"
| "js_max NaN _ = NaN"
| "js_max _ NaN = NaN"
| "js_max PosInf _ = PosInf"
| "js_max _ PosInf = PosInf"
| "js_max NegInf b = b"
| "js_max a NegInf = a"

fun js_min :: "jsnum \<Rightarrow> jsnum \<Rightarrow> jsnum" where
  "js_min (Num a) (Num b) = Num (min a b)"
| "js_min NaN _ = NaN"
| "js_min _ NaN = NaN"
| "js_min NegInf _ = NegInf"
| "js_min _ NegInf = NegInf"
| "js_min PosInf b = b"
| "js_min a PosInf = a"

text \<open>\<^verbatim>\<open>a >= r\<close> and \<^verbatim>\<open>a <= r\<close> for a finite \<open>r\<close>: false when \<open>a\<close> is NaN.\<close>

fun js_ge :: "jsnum \<Rightarrow> real \<Rightarrow> bool" where
  "js_ge (Num a) r = (a \<ge> r)"
| "js_ge PosInf r = True"
| "js_ge NegInf r = False"
| "js_ge NaN r = False"

fun js_le :: "jsnum \<Rightarrow> real \<Rightarrow> bool" where
  "js_le (Num a) r = (a \<le> r)"
| "js_le PosInf r = False"
| "js_le NegInf r = True"
| "js_le NaN r = False"

fun isNum :: "jsnum \<Rightarrow> bool" where
  "isNum (Num a) = True"
| "isNum PosInf = False"
| "isNum NegInf = False"
| "isNum NaN = False"

record Point =
  pt_x :: jsnum
  pt_y :: jsnum

text \<open>The client coordinates of a pointer event, which are finite.\<close>

record Pointer =
  client_x :: real
  client_y :: real

record Overflow =
  canPanUp :: bool
  canPanDown :: bool
  canPanLeft :: bool
  canPanRight :: bool

record Fit =
  fit_scale :: real
  fit_x :: real
  fit_y :: real

definition EDGE_PADDING :: real where
  "EDGE_PADDING = 24"

definition PAGE_CHANGE_THRESHOLD :: real where
  "PAGE_CHANGE_THRESHOLD = 20"

definition PAGE_CHANGE_COOLDOWN :: int where
  "PAGE_CHANGE_COOLDOWN = 150"

definition ZOOM_ANIMATION_DURATION :: real where
  "ZOOM_ANIMATION_DURATION = 200"

subsection \<open>Geometry\<close>

text \<open>\<^verbatim>\<open>getOverflowState\<close>: the viewport and the document are read by the source from
  the container and from \<^verbatim>\<open>svgDocRef\<close>; here they are arguments.\<close>

definition getOverflowState ::
  "Viewport \<Rightarrow> SvgDocument option \<Rightarrow> real \<Rightarrow> Point \<Rightarrow> Overflow" where
  "getOverflowState viewport doc currentScale currentTranslate =
     (case doc of
        None \<Rightarrow> \<lparr>canPanUp = False, canPanDown = False, canPanLeft = False, canPanRight = False\<rparr>
      | Some d \<Rightarrow>
          (let docWidth = width_pt d * currentScale;
               docHeight = height_pt d * currentScale;
               overflowsHorizontally = (docWidth > width viewport);
               overflowsVertically = (docHeight > height viewport);
               atTop = js_ge (pt_y currentTranslate) EDGE_PADDING;
               atBottom = js_le (pt_y currentTranslate) (height viewport - docHeight - EDGE_PADDING);
               atLeft = js_ge (pt_x currentTranslate) EDGE_PADDING;
               atRight = js_le (pt_x currentTranslate) (width viewport - docWidth - EDGE_PADDING)
           in \<lparr>canPanUp = (overflowsVertically \<and> \<not> atTop),
               canPanDown = (overflowsVertically \<and> \<not> atBottom),
               canPanLeft = (overflowsHorizontally \<and> \<not> atLeft),
               canPanRight = (overflowsHorizontally \<and> \<not> atRight)\<rparr>))"

text \<open>\<^verbatim>\<open>clampTranslate\<close>: the arguments \<open>x\<close> and \<open>y\<close> are whatever the caller computed,
  finite or not.\<close>

definition clampTranslate ::
  "Viewport \<Rightarrow> jsnum \<Rightarrow> jsnum \<Rightarrow> real \<Rightarrow> SvgDocument option \<Rightarrow> Point" where
  "clampTranslate viewport x y currentScale doc =
     (case doc of
        None \<Rightarrow> \<lparr>pt_x = Num 0, pt_y = Num 0\<rparr>
      | Some d \<Rightarrow>
          (let docWidth = width_pt d * currentScale;
               docHeight = height_pt d * currentScale;
               clampedX =
                 (if docWidth \<le> width viewport then Num ((width viewport - docWidth) / 2)
                  else (let minX = width viewport - docWidth - EDGE_PADDING;
                            maxX = EDGE_PADDING
                        in js_min (Num maxX) (js_max (Num minX) x)));
               clampedY =
                 (if docHeight \<le> height viewport then Num ((height viewport - docHeight) / 2)
                  else (let minY = height viewport - docHeight - EDGE_PADDING;
                            maxY = EDGE_PADDING
                        in js_min (Num maxY) (js_max (Num minY) y)))
           in \<lparr>pt_x = clampedX, pt_y = clampedY\<rparr>))"

definition getFitValues :: "Viewport \<Rightarrow> SvgDocument option \<Rightarrow> Fit option" where
  "getFitValues viewport doc =
     (case doc of
        None \<Rightarrow> None
      | Some d \<Rightarrow>
          if width viewport = 0 \<or> height viewport = 0 then None
          else
            (let padding = EDGE_PADDING * 2;
                 scaleX = (width viewport - padding) / width_pt d;
                 scaleY = (height viewport - padding) / height_pt d;
                 newScale = min scaleX scaleY;
                 docWidth = width_pt d * newScale;
                 docHeight = height_pt d * newScale;
                 x = (width viewport - docWidth) / 2;
                 y = (height viewport - docHeight) / 2
             in Some \<lparr>fit_scale = newScale, fit_x = x, fit_y = y\<rparr>))"

subsection \<open>State\<close>

text \<open>The closure of the pending \<^verbatim>\<open>animate\<close> callback: what \<^verbatim>\<open>animateZoom\<close> captured
  when it was called.\<close>

record Animation =
  startScale :: real
  startX :: jsnum
  startY :: jsnum
  startTime :: real
  targetScale :: real
  targetX :: jsnum
  targetY :: jsnum
  duration :: real

text \<open>
  The state of the component. \<^verbatim>\<open>zoomAnimation\<close> is \<^verbatim>\<open>zoomAnimationRef\<close>: it holds a
  request exactly while an \<^verbatim>\<open>animate\<close> callback is scheduled, and the model keeps
  the callback's closure there. \<^verbatim>\<open>pendingFits\<close> counts the calls
  \<^verbatim>\<open>requestAnimationFrame(() => fitToViewport())\<close> that have not run yet.
  \<^verbatim>\<open>svgDoc\<close> is the prop, \<^verbatim>\<open>viewport\<close> the client size of the container, which
  \<^verbatim>\<open>getViewport\<close> reads on demand.
\<close>

record ViewerState =
  currentPage :: int
  scale :: real
  translate :: Point
  isFitMode :: bool
  isDragging :: bool
  lastPointer :: Pointer
  pageChangeAccumulator :: real
  lastPageChangeTime :: int
  zoomAnimation :: "Animation option"
  pendingFits :: nat
  svgDoc :: "SvgDocument option"
  viewport :: Viewport

text \<open>\<^verbatim>\<open>svgDoc?.pages.length ?? 0\<close>, the page count of the render.\<close>

definition numPages :: "ViewerState \<Rightarrow> int" where
  "numPages s = (case svgDoc s of None \<Rightarrow> 0 | Some d \<Rightarrow> int (length (pages d)))"

text \<open>\<^verbatim>\<open>svgDocRef.current?.pages.length ?? 1\<close>, the page count the handlers use.\<close>

definition refNumPages :: "ViewerState \<Rightarrow> int" where
  "refNumPages s = (case svgDoc s of None \<Rightarrow> 1 | Some d \<Rightarrow> int (length (pages d)))"

text \<open>The page indicator of the render: \<^verbatim>\<open>numPages > 0 ? currentPage : 0\<close>.\<close>

definition displayedPage :: "ViewerState \<Rightarrow> int" where
  "displayedPage s = (if numPages s > 0 then currentPage s else 0)"

definition initialState :: "Viewport \<Rightarrow> ViewerState" where
  "initialState vp =
     \<lparr>currentPage = 1, scale = 1, translate = \<lparr>pt_x = Num 0, pt_y = Num 0\<rparr>, isFitMode = True,
      isDragging = False, lastPointer = \<lparr>client_x = 0, client_y = 0\<rparr>,
      pageChangeAccumulator = 0, lastPageChangeTime = 0, zoomAnimation = None,
      pendingFits = 0, svgDoc = None, viewport = vp\<rparr>"

subsection \<open>Fit and animation\<close>

definition fitToViewport :: "ViewerState \<Rightarrow> ViewerState" where
  "fitToViewport s =
     (case getFitValues (viewport s) (svgDoc s) of
        None \<Rightarrow> s
      | Some fit \<Rightarrow>
          s\<lparr>scale := fit_scale fit, translate := \<lparr>pt_x = Num (fit_x fit), pt_y = Num (fit_y fit)\<rparr>\<rparr>)"

text \<open>\<^verbatim>\<open>animateZoom\<close>: a scheduled callback is cancelled by being replaced; \<open>t\<close> is
  what \<^verbatim>\<open>performance.now()\<close> returns.\<close>

definition animateZoom :: "ViewerState \<Rightarrow> real \<Rightarrow> jsnum \<Rightarrow> jsnum \<Rightarrow> real \<Rightarrow> ViewerState" where
  "animateZoom s tScale tX tY t =
     s\<lparr>zoomAnimation :=
         Some \<lparr>startScale = scale s, startX = pt_x (translate s), startY = pt_y (translate s),
               startTime = t, targetScale = tScale, targetX = tX, targetY = tY,
               duration = ZOOM_ANIMATION_DURATION\<rparr>\<rparr>"

text \<open>The callback \<^verbatim>\<open>animate\<close> of a frame at time \<open>currentTime\<close>.\<close>

definition animate :: "Animation \<Rightarrow> real \<Rightarrow> ViewerState \<Rightarrow> ViewerState" where
  "animate a currentTime s =
     (let elapsed = currentTime - startTime a;
          progress = min (elapsed / duration a) 1;
          eased = 1 - (1 - progress) ^ 3;
          currentScale = startScale a + (targetScale a - startScale a) * eased;
          currentX = js_add (startX a) (js_mul (js_sub (targetX a) (startX a)) (Num eased));
          currentY = js_add (startY a) (js_mul (js_sub (targetY a) (startY a)) (Num eased))
      in s\<lparr>scale := currentScale, translate := \<lparr>pt_x = currentX, pt_y = currentY\<rparr>,
           zoomAnimation := (if progress < 1 then Some a else None)\<rparr>)"

subsection \<open>Wheel input\<close>

text \<open>A wheel event as the handler reads it: \<open>pointerX\<close> and \<open>pointerY\<close> are
  \<^verbatim>\<open>e.clientX - rect.left\<close> and \<^verbatim>\<open>e.clientY - rect.top\<close>, \<open>now\<close> is the value of
  \<^verbatim>\<open>Date.now()\<close> when the handler runs. The values 0, 1 and 2 of \<^verbatim>\<open>e.deltaMode\<close> are
  \<open>DOM_DELTA_PIXEL\<close>, \<open>DOM_DELTA_LINE\<close> and \<open>DOM_DELTA_PAGE\<close>.\<close>

datatype DeltaMode = DOM_DELTA_PIXEL | DOM_DELTA_LINE | DOM_DELTA_PAGE

record WheelEvent =
  ctrlKey :: bool
  deltaX :: real
  deltaY :: real
  deltaMode :: DeltaMode
  pointerX :: real
  pointerY :: real
  now :: int

text \<open>The branch \<^verbatim>\<open>if (e.ctrlKey)\<close> of \<^verbatim>\<open>handleWheel\<close>.\<close>

definition wheelZoom :: "ViewerState \<Rightarrow> WheelEvent \<Rightarrow> ViewerState" where
  "wheelZoom s e =
     (let currentScale = scale s;
          currentTranslate = translate s;
          zoomFactor = (995 / 1000) powr deltaY e;
          newScale = min 4 (max (1 / 10) (currentScale * zoomFactor));
          scaleRatio = js_div newScale currentScale;
          newX = js_sub (Num (pointerX e))
                   (js_mul (js_sub (Num (pointerX e)) (pt_x currentTranslate)) scaleRatio);
          newY = js_sub (Num (pointerY e))
                   (js_mul (js_sub (Num (pointerY e)) (pt_y currentTranslate)) scaleRatio);
          clamped = clampTranslate (viewport s) newX newY newScale (svgDoc s)
      in s\<lparr>isFitMode := False, zoomAnimation := None, scale := newScale, translate := clamped\<rparr>)"

text \<open>The tests of the two panning blocks of \<^verbatim>\<open>handleWheel\<close>.\<close>

definition pansHorizontally :: "ViewerState \<Rightarrow> WheelEvent \<Rightarrow> bool" where
  "pansHorizontally s e =
     (let overflow = getOverflowState (viewport s) (svgDoc s) (scale s) (translate s)
      in deltaX e \<noteq> 0 \<and>
         ((deltaX e > 0 \<and> canPanRight overflow) \<or> (deltaX e < 0 \<and> canPanLeft overflow)))"

definition pansVertically :: "ViewerState \<Rightarrow> WheelEvent \<Rightarrow> bool" where
  "pansVertically s e =
     (let overflow = getOverflowState (viewport s) (svgDoc s) (scale s) (translate s)
      in deltaY e \<noteq> 0 \<and>
         ((deltaY e > 0 \<and> canPanDown overflow) \<or> (deltaY e < 0 \<and> canPanUp overflow)))"

text \<open>The branch \<^verbatim>\<open>else if (e.deltaY !== 0)\<close>: page navigation.\<close>

definition wheelPageTurn :: "ViewerState \<Rightarrow> WheelEvent \<Rightarrow> ViewerState" where
  "wheelPageTurn s e =
     (let numPages = refNumPages s;
          current = currentPage s;
          currentScale = scale s;
          isDiscreteScroll = (deltaMode e = DOM_DELTA_LINE)
      in if isDiscreteScroll then
           (let cooldownPassed = (now e - lastPageChangeTime s > PAGE_CHANGE_COOLDOWN)
            in if cooldownPassed then
                 (let direction = (if deltaY e > 0 then 1 else - 1);
                      newPage = current + direction
                  in if newPage \<ge> 1 \<and> newPage \<le> numPages
                     then s\<lparr>lastPageChangeTime := now e, currentPage := newPage\<rparr>
                     else s)
               else s)
         else
           (let s1 = s\<lparr>pageChangeAccumulator := pageChangeAccumulator s + deltaY e\<rparr>;
                cooldownPassed = (now e - lastPageChangeTime s > PAGE_CHANGE_COOLDOWN)
            in if \<bar>pageChangeAccumulator s1\<bar> \<ge> PAGE_CHANGE_THRESHOLD \<and> cooldownPassed then
                 (let direction = (if pageChangeAccumulator s1 > 0 then 1 else - 1);
                      newPage = current + direction
                  in if newPage \<ge> 1 \<and> newPage \<le> numPages then
                       (let s2 = s1\<lparr>lastPageChangeTime := now e, pageChangeAccumulator := 0,
                                     currentPage := newPage\<rparr>
                        in case svgDoc s of
                             None \<Rightarrow> s2
                           | Some doc \<Rightarrow>
                               (let docHeight = height_pt doc * currentScale
                                in if docHeight > height (viewport s) then
                                     (if direction > (0::int) then
                                        s2\<lparr>translate := clampTranslate (viewport s)
                                             (pt_x (translate s2)) (Num EDGE_PADDING) currentScale
                                             (svgDoc s)\<rparr>
                                      else
                                        (let bottomY = height (viewport s) - docHeight - EDGE_PADDING
                                         in s2\<lparr>translate := clampTranslate (viewport s)
                                              (pt_x (translate s2)) (Num bottomY) currentScale
                                              (svgDoc s)\<rparr>))
                                   else s2))
                     else s1\<lparr>pageChangeAccumulator := 0\<rparr>)
               else s1))"

definition handleWheel :: "ViewerState \<Rightarrow> WheelEvent \<Rightarrow> ViewerState" where
  "handleWheel s e =
     (if ctrlKey e then wheelZoom s e
      else
        (let currentScale = scale s;
             currentTranslate = translate s;
             isDiscreteScroll = (deltaMode e = DOM_DELTA_LINE);
             panX = pansHorizontally s e;
             panY = pansVertically s e;
             newX = (if panX then js_sub (pt_x currentTranslate)
                                    (Num (deltaX e * (if isDiscreteScroll then 20 else 1)))
                     else pt_x currentTranslate);
             newY = (if panY then js_sub (pt_y currentTranslate)
                                    (Num (deltaY e * (if isDiscreteScroll then 20 else 1)))
                     else pt_y currentTranslate);
             didPan = (panX \<or> panY);
             s1 = (if panY then s\<lparr>pageChangeAccumulator := 0\<rparr> else s)
         in if didPan then
              s1\<lparr>translate := clampTranslate (viewport s) newX newY currentScale (svgDoc s)\<rparr>
            else if deltaY e \<noteq> 0 then wheelPageTurn s1 e
            else s1))"

subsection \<open>Pointer drag\<close>

text \<open>\<open>onButton\<close> is \<^verbatim>\<open>target.closest("button")\<close> being non-null.\<close>

definition handlePointerDown :: "ViewerState \<Rightarrow> int \<Rightarrow> bool \<Rightarrow> real \<Rightarrow> real \<Rightarrow> ViewerState" where
  "handlePointerDown s button onButton clientX clientY =
     (if button \<noteq> 0 then s
      else if onButton then s
      else s\<lparr>isDragging := True, lastPointer := \<lparr>client_x = clientX, client_y = clientY\<rparr>\<rparr>)"

definition handlePointerMove :: "ViewerState \<Rightarrow> real \<Rightarrow> real \<Rightarrow> ViewerState" where
  "handlePointerMove s clientX clientY =
     (if \<not> isDragging s then s
      else
        (let dx = clientX - client_x (lastPointer s);
             dy = clientY - client_y (lastPointer s);
             currentTranslate = translate s;
             currentScale = scale s;
             newX = js_add (pt_x currentTranslate) (Num dx);
             newY = js_add (pt_y currentTranslate) (Num dy)
         in s\<lparr>lastPointer := \<lparr>client_x = clientX, client_y = clientY\<rparr>,
              translate := clampTranslate (viewport s) newX newY currentScale (svgDoc s)\<rparr>))"

definition handlePointerUp :: "ViewerState \<Rightarrow> ViewerState" where
  "handlePointerUp s = s\<lparr>isDragging := False\<rparr>"

subsection \<open>Page and zoom controls\<close>

definition goToPrevPage :: "ViewerState \<Rightarrow> ViewerState" where
  "goToPrevPage s = s\<lparr>currentPage := max (currentPage s - 1) 1\<rparr>"

definition goToNextPage :: "ViewerState \<Rightarrow> ViewerState" where
  "goToNextPage s = s\<lparr>currentPage := min (currentPage s + 1) (refNumPages s)\<rparr>"

definition handleZoomIn :: "ViewerState \<Rightarrow> real \<Rightarrow> ViewerState" where
  "handleZoomIn s t =
     (let currentScale = scale s;
          currentTranslate = translate s;
          newScale = min 4 (currentScale * (125 / 100));
          centerX = width (viewport s) / 2;
          centerY = height (viewport s) / 2;
          scaleRatio = js_div newScale currentScale;
          newX = js_sub (Num centerX) (js_mul (js_sub (Num centerX) (pt_x currentTranslate)) scaleRatio);
          newY = js_sub (Num centerY) (js_mul (js_sub (Num centerY) (pt_y currentTranslate)) scaleRatio);
          clamped = clampTranslate (viewport s) newX newY newScale (svgDoc s)
      in animateZoom (s\<lparr>isFitMode := False\<rparr>) newScale (pt_x clamped) (pt_y clamped) t)"

definition handleZoomOut :: "ViewerState \<Rightarrow> real \<Rightarrow> ViewerState" where
  "handleZoomOut s t =
     (let currentScale = scale s;
          currentTranslate = translate s;
          newScale = max (1 / 10) (currentScale / (125 / 100));
          centerX = width (viewport s) / 2;
          centerY = height (viewport s) / 2;
          scaleRatio = js_div newScale currentScale;
          newX = js_sub (Num centerX) (js_mul (js_sub (Num centerX) (pt_x currentTranslate)) scaleRatio);
          newY = js_sub (Num centerY) (js_mul (js_sub (Num centerY) (pt_y currentTranslate)) scaleRatio);
          clamped = clampTranslate (viewport s) newX newY newScale (svgDoc s)
      in animateZoom (s\<lparr>isFitMode := False\<rparr>) newScale (pt_x clamped) (pt_y clamped) t)"

definition handleFit :: "ViewerState \<Rightarrow> real \<Rightarrow> ViewerState" where
  "handleFit s t =
     (let s1 = s\<lparr>isFitMode := True\<rparr>
      in case getFitValues (viewport s) (svgDoc s) of
           None \<Rightarrow> s1
         | Some fit \<Rightarrow> animateZoom s1 (fit_scale fit) (Num (fit_x fit)) (Num (fit_y fit)) t)"

subsection \<open>Keyboard\<close>

record KeyboardEvent =
  key :: string
  metaKey :: bool
  kbCtrlKey :: bool

text \<open>\<open>isInputFocused\<close> is the test of \<^verbatim>\<open>document.activeElement\<close>; \<open>t\<close> is
  \<^verbatim>\<open>performance.now()\<close> for the zoom handlers.\<close>

definition handleKeyDown :: "ViewerState \<Rightarrow> KeyboardEvent \<Rightarrow> bool \<Rightarrow> real \<Rightarrow> ViewerState" where
  "handleKeyDown s e isInputFocused t =
     (let isMeta = (metaKey e \<or> kbCtrlKey e)
      in if isInputFocused then s
         else if key e = ''ArrowLeft'' \<or> key e = ''ArrowUp'' then
           s\<lparr>currentPage := max (currentPage s - 1) 1\<rparr>
         else if key e = ''ArrowRight'' \<or> key e = ''ArrowDown'' then
           s\<lparr>currentPage := min (currentPage s + 1) (refNumPages s)\<rparr>
         else if key e = ''Home'' then s\<lparr>currentPage := 1\<rparr>
         else if key e = ''End'' then s\<lparr>currentPage := refNumPages s\<rparr>
         else if isMeta \<and> (key e = ''='' \<or> key e = ''+'') then handleZoomIn s t
         else if isMeta \<and> key e = ''-'' then handleZoomOut s t
         else if isMeta \<and> key e = ''0'' then handleFit s t
         else s)"

subsection \<open>Effects, resize and the step function\<close>

text \<open>The effect \<^verbatim>\<open>if (currentPage > numPages && numPages > 0) setCurrentPage(1)\<close>,
  which runs after every render that changed the page or the page count.\<close>

definition pageResetEffect :: "ViewerState \<Rightarrow> ViewerState" where
  "pageResetEffect s =
     (if currentPage s > numPages s \<and> numPages s > 0 then s\<lparr>currentPage := 1\<rparr> else s)"

text \<open>A new \<^verbatim>\<open>svgDoc\<close> prop: the effect on \<^verbatim>\<open>[svgDoc, fitToViewport]\<close> schedules a fit
  when there is a document.\<close>

definition setDoc :: "ViewerState \<Rightarrow> SvgDocument option \<Rightarrow> ViewerState" where
  "setDoc s d =
     (let s1 = s\<lparr>svgDoc := d\<rparr>
      in case d of None \<Rightarrow> s1 | Some _ \<Rightarrow> s1\<lparr>pendingFits := pendingFits s1 + 1\<rparr>)"

text \<open>The callback of the \<^verbatim>\<open>ResizeObserver\<close>, with the container now of size \<open>vp\<close>.\<close>

definition handleResize :: "ViewerState \<Rightarrow> Viewport \<Rightarrow> ViewerState" where
  "handleResize s vp =
     (let s1 = s\<lparr>viewport := vp\<rparr>
      in if isFitMode s then fitToViewport s1
         else
           (let currentScale = scale s1;
                currentTranslate = translate s1;
                clamped = clampTranslate vp (pt_x currentTranslate) (pt_y currentTranslate)
                            currentScale (svgDoc s1)
            in s1\<lparr>translate := clamped\<rparr>))"

text \<open>
  What can happen to the component. The buttons carry their \<^verbatim>\<open>disabled\<close> tests.
  A step is a handler together with the effects of the render it causes.
  \<open>AnimationFrame t\<close> runs the scheduled \<^verbatim>\<open>animate\<close> callback, \<open>FitFrame\<close> one
  scheduled \<^verbatim>\<open>fitToViewport\<close>.
\<close>

datatype Event =
    Wheel WheelEvent
  | PointerDown int bool real real
  | PointerMove real real
  | PointerUp
  | KeyDown KeyboardEvent bool real
  | ClickPrev
  | ClickNext
  | ClickZoomIn real
  | ClickZoomOut real
  | ClickFit real
  | AnimationFrame real
  | FitFrame
  | Resize Viewport
  | SetDoc "SvgDocument option"

fun handle :: "ViewerState \<Rightarrow> Event \<Rightarrow> ViewerState" where
  "handle s (Wheel e) = handleWheel s e"
| "handle s (PointerDown button onButton clientX clientY) =
     handlePointerDown s button onButton clientX clientY"
| "handle s (PointerMove clientX clientY) = handlePointerMove s clientX clientY"
| "handle s PointerUp = handlePointerUp s"
| "handle s (KeyDown e isInputFocused t) = handleKeyDown s e isInputFocused t"
| "handle s ClickPrev = (if currentPage s \<le> 1 then s else goToPrevPage s)"
| "handle s ClickNext = (if currentPage s \<ge> numPages s then s else goToNextPage s)"
| "handle s (ClickZoomIn t) = handleZoomIn s t"
| "handle s (ClickZoomOut t) = handleZoomOut s t"
| "handle s (ClickFit t) = (if isFitMode s then s else handleFit s t)"
| "handle s (AnimationFrame t) =
     (case zoomAnimation s of None \<Rightarrow> s | Some a \<Rightarrow> animate a t s)"
| "handle s FitFrame =
     (if pendingFits s > 0 then (fitToViewport s)\<lparr>pendingFits := pendingFits s - 1\<rparr> else s)"
| "handle s (Resize vp) = handleResize s vp"
| "handle s (SetDoc d) = setDoc s d"

definition step :: "ViewerState \<Rightarrow> Event \<Rightarrow> ViewerState" where
  "step s ev = pageResetEffect (handle s ev)"

definition run :: "ViewerState \<Rightarrow> Event list \<Rightarrow> ViewerState" where
  "run s evs = foldl step s evs"

subsection \<open>Predicates and scenarios used in the statements\<close>

text \<open>The committed translate is a pair of finite numbers and a fixed point of
  \<^verbatim>\<open>clampTranslate\<close> at the scale \<open>sc\<close>, for the current document and viewport;
  \<open>clamped\<close> takes the committed scale.\<close>

definition clampedAt :: "real \<Rightarrow> ViewerState \<Rightarrow> bool" where
  "clampedAt sc s =
     (isNum (pt_x (translate s)) \<and> isNum (pt_y (translate s)) \<and>
      clampTranslate (viewport s) (pt_x (translate s)) (pt_y (translate s)) sc (svgDoc s)
        = translate s)"

definition clamped :: "ViewerState \<Rightarrow> bool" where
  "clamped s = clampedAt (scale s) s"

text \<open>Both coordinates of the translate are finite.\<close>

definition finiteTranslate :: "ViewerState \<Rightarrow> bool" where
  "finiteTranslate s = (isNum (pt_x (translate s)) \<and> isNum (pt_y (translate s)))"

text \<open>A wheel event that \<^verbatim>\<open>handleWheel\<close> routes to page navigation: no modifier, neither
  panning block taken, and \<^verbatim>\<open>e.deltaY !== 0\<close>.\<close>

definition pageTurnIntent :: "ViewerState \<Rightarrow> WheelEvent \<Rightarrow> bool" where
  "pageTurnIntent s e =
     (\<not> ctrlKey e \<and> \<not> pansHorizontally s e \<and> \<not> pansVertically s e \<and> deltaY e \<noteq> 0)"

text \<open>Every document that is supplied has at least one page.\<close>

definition docsNonEmpty :: "Event \<Rightarrow> bool" where
  "docsNonEmpty ev = (case ev of SetDoc (Some d) \<Rightarrow> pages d \<noteq> [] | _ \<Rightarrow> True)"

text \<open>The invariant of the current page: at least 1, and at most the page count of a
  document that is present.\<close>

definition pageInv :: "ViewerState \<Rightarrow> bool" where
  "pageInv s =
     (1 \<le> currentPage s \<and>
      (case svgDoc s of None \<Rightarrow> True
       | Some d \<Rightarrow> pages d \<noteq> [] \<and> currentPage s \<le> int (length (pages d))))"

text \<open>Documents, viewports and events of the scenarios below.\<close>

definition letterDoc :: SvgDocument where
  "letterDoc = \<lparr>pages = [''page 1''], width_pt = 612, height_pt = 792\<rparr>"

definition squareDoc :: SvgDocument where
  "squareDoc = \<lparr>pages = [''page 1'', ''page 2''], width_pt = 1000, height_pt = 1000\<rparr>"

definition emptyDoc :: SvgDocument where
  "emptyDoc = \<lparr>pages = [], width_pt = 612, height_pt = 792\<rparr>"

definition window :: "real \<Rightarrow> real \<Rightarrow> Viewport" where
  "window w h = \<lparr>width = w, height = h\<rparr>"

definition trackpad :: "real \<Rightarrow> real \<Rightarrow> int \<Rightarrow> WheelEvent" where
  "trackpad dx dy t =
     \<lparr>ctrlKey = False, deltaX = dx, deltaY = dy, deltaMode = DOM_DELTA_PIXEL,
      pointerX = 0, pointerY = 0, now = t\<rparr>"

definition wheelClick :: "real \<Rightarrow> int \<Rightarrow> WheelEvent" where
  "wheelClick dy t =
     \<lparr>ctrlKey = False, deltaX = 0, deltaY = dy, deltaMode = DOM_DELTA_LINE,
      pointerX = 0, pointerY = 0, now = t\<rparr>"

definition pinch :: "real \<Rightarrow> WheelEvent" where
  "pinch dy =
     \<lparr>ctrlKey = True, deltaX = 0, deltaY = dy, deltaMode = DOM_DELTA_PIXEL,
      pointerX = 0, pointerY = 0, now = 0\<rparr>"

text \<open>The square document fitted into a 1048 x 1048 viewport (scale 1, centred), and the
  same after one completed zoom-in (scale 5/4, overflowing on both axes).\<close>

definition fittedState :: ViewerState where
  "fittedState = run (initialState (window 1048 1048)) [SetDoc (Some squareDoc), FitFrame]"

definition zoomedState :: ViewerState where
  "zoomedState = run fittedState [ClickZoomIn 0, AnimationFrame 200]"

text \<open>The closures of the animations that zoom-in starts in \<open>fittedState\<close> and that
  zoom-out and fit start in \<open>zoomedState\<close>, at time 0.\<close>

definition zoomInAnimation :: Animation where
  "zoomInAnimation =
     \<lparr>startScale = 1, startX = Num 24, startY = Num 24, startTime = 0,
      targetScale = 5 / 4, targetX = Num (- 101), targetY = Num (- 101), duration = 200\<rparr>"

definition zoomBackAnimation :: Animation where
  "zoomBackAnimation =
     \<lparr>startScale = 5 / 4, startX = Num (- 101), startY = Num (- 101), startTime = 0,
      targetScale = 1, targetX = Num 24, targetY = Num 24, duration = 200\<rparr>"

text \<open>After the zoom-in the document is dragged to its top left bound, fit is clicked at
  time 1000, and the frame at time 1100 (progress 1/2) has run.\<close>

definition midAnimationState :: ViewerState where
  "midAnimationState =
     run (initialState (window 1048 1048))
       [SetDoc (Some squareDoc), FitFrame, ClickZoomIn 0, AnimationFrame 200,
        PointerDown 0 False 0 0, PointerMove 200 200, PointerUp,
        ClickFit 1000, AnimationFrame 1100]"

text \<open>A letter-size document fitted into a viewport 48 pixels wide: the scale is 0.\<close>

definition zeroScaleState :: ViewerState where
  "zeroScaleState = run (initialState (window 48 600)) [SetDoc (Some letterDoc), FitFrame]"

text \<open>A letter-size document fitted into a 100 x 100 viewport.\<close>

definition narrowFitState :: ViewerState where
  "narrowFitState = run (initialState (window 100 100)) [SetDoc (Some letterDoc), FitFrame]"

text \<open>A continuous scroll of 10 in \<open>fittedState\<close>, where nothing can be panned, leaves
  the accumulator at 10; the zoom-in after it makes the document overflow.\<close>

definition pendingState :: ViewerState where
  "pendingState = run fittedState [Wheel (trackpad 0 10 500)]"

definition pendingZoomedState :: ViewerState where
  "pendingZoomedState = run pendingState [ClickZoomIn 600, AnimationFrame 800]"

text \<open>A wheel click at time 1000 in \<open>fittedState\<close> turns to page 2, the last page.\<close>

definition lastPageState :: ViewerState where
  "lastPageState = run fittedState [Wheel (wheelClick 1 1000)]"

text \<open>In \<open>zoomedState\<close> a second zoom-in is started at time 300 and the pointer goes down:
  an animation is in flight while a drag begins.\<close>

definition animatingState :: ViewerState where
  "animatingState = run zoomedState [ClickZoomIn 300, PointerDown 0 False 0 0]"

definition threePageDoc :: SvgDocument where
  "threePageDoc = \<lparr>pages = [''page 1'', ''page 2'', ''page 3''], width_pt = 612, height_pt = 792\<rparr>"

definition pressKey :: "string \<Rightarrow> Event" where
  "pressKey k = KeyDown \<lparr>key = k, metaKey = False, kbCtrlKey = False\<rparr> False 0"

text \<open>The three-page document is loaded and End is pressed: page 3.\<close>

definition thirdPageState :: ViewerState where
  "thirdPageState =
     run (initialState (window 800 600)) [SetDoc (Some threePageDoc), FitFrame, pressKey ''End'']"

section \<open>Properties of the geometry\<close>





section \<open>Shared lemmas\<close>

lemmas run_simps = run_def step_def pageResetEffect_def numPages_def refNumPages_def
  initialState_def setDoc_def fitToViewport_def getFitValues_def EDGE_PADDING_def Let_def
  handleZoomIn_def handleZoomOut_def handleFit_def animateZoom_def animate_def clampTranslate_def
  ZOOM_ANIMATION_DURATION_def handlePointerDown_def handlePointerMove_def handlePointerUp_def
  window_def power3_eq_cube js_div_def js_inf_def

lemma fittedState_eq:
  "fittedState =
     \<lparr>currentPage = 1, scale = 1, translate = \<lparr>pt_x = Num 24, pt_y = Num 24\<rparr>, isFitMode = True,
      isDragging = False, lastPointer = \<lparr>client_x = 0, client_y = 0\<rparr>,
      pageChangeAccumulator = 0, lastPageChangeTime = 0, zoomAnimation = None,
      pendingFits = 0, svgDoc = Some squareDoc, viewport = window 1048 1048\<rparr>"
  by (simp add: fittedState_def run_simps squareDoc_def)

lemma zoomedState_eq:
  "zoomedState =
     \<lparr>currentPage = 1, scale = 5 / 4, translate = \<lparr>pt_x = Num (- 101), pt_y = Num (- 101)\<rparr>,
      isFitMode = False, isDragging = False, lastPointer = \<lparr>client_x = 0, client_y = 0\<rparr>,
      pageChangeAccumulator = 0, lastPageChangeTime = 0, zoomAnimation = None,
      pendingFits = 0, svgDoc = Some squareDoc, viewport = window 1048 1048\<rparr>"
  by (simp add: zoomedState_def fittedState_eq run_simps squareDoc_def)

lemma clampTranslate_idem:
  "clampTranslate v (pt_x (clampTranslate v x y s d)) (pt_y (clampTranslate v x y s d)) s d
     = clampTranslate v x y s d"
proof (cases d)
  case None
  then show ?thesis by (simp add: clampTranslate_def)
next
  case (Some doc)
  have m: "js_min (Num b) (js_max (Num a) (js_min (Num b) (js_max (Num a) z)))
             = js_min (Num b) (js_max (Num a) z)" for a b z
    by (cases z) (simp_all add: min_def max_def)
  show ?thesis
    unfolding Some by (simp add: clampTranslate_def Let_def m)
qed

lemma clampTranslate_isNum:
  assumes "isNum x" "isNum y"
  shows "isNum (pt_x (clampTranslate v x y s d)) \<and> isNum (pt_y (clampTranslate v x y s d))"
proof -
  obtain a b where "x = Num a" "y = Num b"
    using assms by (cases x; cases y) simp_all
  then show ?thesis by (cases d) (simp_all add: clampTranslate_def Let_def)
qed

lemma getFitValues_Some:
  "width v \<noteq> 0 \<Longrightarrow> height v \<noteq> 0 \<Longrightarrow>
   getFitValues v (Some d) =
     Some \<lparr>fit_scale = min ((width v - 48) / width_pt d) ((height v - 48) / height_pt d),
           fit_x = (width v - width_pt d
                      * min ((width v - 48) / width_pt d) ((height v - 48) / height_pt d)) / 2,
           fit_y = (height v - height_pt d
                      * min ((width v - 48) / width_pt d) ((height v - 48) / height_pt d)) / 2\<rparr>"
  by (simp add: getFitValues_def Let_def EDGE_PADDING_def)

lemma getFitValues_None_iff:
  "getFitValues v (Some d) = None \<longleftrightarrow> width v = 0 \<or> height v = 0"
  by (simp add: getFitValues_def Let_def)

lemma pageTurnIntent_handleWheel:
  "pageTurnIntent s e \<Longrightarrow> handleWheel s e = wheelPageTurn s e"
  by (simp add: pageTurnIntent_def handleWheel_def Let_def)

lemma pageTurnIntent_cong:
  "viewport s' = viewport s \<Longrightarrow> svgDoc s' = svgDoc s \<Longrightarrow> scale s' = scale s \<Longrightarrow>
   translate s' = translate s \<Longrightarrow> pageTurnIntent s' e = pageTurnIntent s e"
  by (simp add: pageTurnIntent_def pansHorizontally_def pansVertically_def)

lemma fitted_pageTurnIntent:
  "dy \<noteq> 0 \<Longrightarrow> pageTurnIntent fittedState (trackpad dx dy t)"
  "dy \<noteq> 0 \<Longrightarrow> pageTurnIntent fittedState (wheelClick dy t)"
  by (simp_all add: pageTurnIntent_def pansHorizontally_def pansVertically_def
      getOverflowState_def fittedState_eq trackpad_def wheelClick_def squareDoc_def window_def
      Let_def)

lemma scroll_sel:
  "ctrlKey (trackpad dx dy t) = False" "deltaX (trackpad dx dy t) = dx"
  "deltaY (trackpad dx dy t) = dy" "deltaMode (trackpad dx dy t) = DOM_DELTA_PIXEL"
  "now (trackpad dx dy t) = t"
  "ctrlKey (wheelClick dy t) = False" "deltaX (wheelClick dy t) = 0"
  "deltaY (wheelClick dy t) = dy" "deltaMode (wheelClick dy t) = DOM_DELTA_LINE"
  "now (wheelClick dy t) = t"
  by (simp_all add: trackpad_def wheelClick_def)

lemma fittedState_sel:
  "pageChangeAccumulator fittedState = 0" "currentPage fittedState = 1"
  "lastPageChangeTime fittedState = 0" "refNumPages fittedState = 2"
  by (simp_all add: fittedState_eq refNumPages_def squareDoc_def)

lemma discrete_turn:
  assumes "deltaMode e = DOM_DELTA_LINE"
  shows "wheelPageTurn s e =
     (if now e - lastPageChangeTime s > PAGE_CHANGE_COOLDOWN
         \<and> 1 \<le> currentPage s + (if deltaY e > 0 then 1 else - 1)
         \<and> currentPage s + (if deltaY e > 0 then 1 else - 1) \<le> refNumPages s
      then s\<lparr>lastPageChangeTime := now e,
              currentPage := currentPage s + (if deltaY e > 0 then 1 else - 1)\<rparr>
      else s)"
  using assms by (simp add: wheelPageTurn_def Let_def)

section \<open>Fit to viewport\<close>

text \<open>
  C4 (amended). Without a document \<^verbatim>\<open>getFitValues\<close> returns null. For a document
  that is present, it returns null exactly when the viewport area is zero, and then \<^verbatim>\<open>fitToViewport\<close> and \<^verbatim>\<open>handleFit\<close> leave
  scale and translate unchanged; otherwise it returns
  scale = min((width - 48) / docWidth, (height - 48) / docHeight) and the translate that
  centres the scaled document. For a 612 x 792 document in an 800 x 600 viewport this is
  scale = 23/33 (about 0.697), x = 2054/11 (about 186.7) and y = 24.
\<close>

theorem getFitValues_spec:
  "getFitValues v0 None = None
   \<and> (getFitValues v (Some d) = None \<longleftrightarrow> width v * height v = 0)
   \<and> (svgDoc s = Some d1 \<and> width (viewport s) * height (viewport s) = 0 \<longrightarrow>
        fitToViewport s = s
        \<and> scale (handleFit s t) = scale s \<and> translate (handleFit s t) = translate s)
   \<and> (width v2 * height v2 \<noteq> 0 \<longrightarrow>
        (let newScale = min ((width v2 - 2 * 24) / width_pt d2) ((height v2 - 2 * 24) / height_pt d2)
         in getFitValues v2 (Some d2) =
              Some \<lparr>fit_scale = newScale,
                    fit_x = (width v2 - width_pt d2 * newScale) / 2,
                    fit_y = (height v2 - height_pt d2 * newScale) / 2\<rparr>))
   \<and> getFitValues (window 800 600) (Some letterDoc)
        = Some \<lparr>fit_scale = 23 / 33, fit_x = 2054 / 11, fit_y = 24\<rparr>
   \<and> \<bar>23 / 33 - 697 / 1000\<bar> < (1 / 1000 :: real)
   \<and> \<bar>2054 / 11 - 1867 / 10\<bar> < (1 / 10 :: real)"
proof -
  have n: "getFitValues v0 None = None" by (simp add: getFitValues_def)
  have a: "getFitValues v (Some d) = None \<longleftrightarrow> width v * height v = 0"
    by (simp add: getFitValues_None_iff)
  have b: "fitToViewport s = s
        \<and> scale (handleFit s t) = scale s \<and> translate (handleFit s t) = translate s"
    if "svgDoc s = Some d1" "width (viewport s) * height (viewport s) = 0"
  proof -
    have "getFitValues (viewport s) (svgDoc s) = None"
      using that by (simp add: getFitValues_None_iff)
    then show ?thesis by (simp add: fitToViewport_def handleFit_def)
  qed
  have c: "(let newScale = min ((width v2 - 2 * 24) / width_pt d2) ((height v2 - 2 * 24) / height_pt d2)
         in getFitValues v2 (Some d2) =
              Some \<lparr>fit_scale = newScale,
                    fit_x = (width v2 - width_pt d2 * newScale) / 2,
                    fit_y = (height v2 - height_pt d2 * newScale) / 2\<rparr>)"
    if "width v2 * height v2 \<noteq> 0"
    using that by (simp add: getFitValues_Some Let_def)
  have d: "getFitValues (window 800 600) (Some letterDoc)
        = Some \<lparr>fit_scale = 23 / 33, fit_x = 2054 / 11, fit_y = 24\<rparr>"
    by (simp add: getFitValues_def window_def letterDoc_def Let_def EDGE_PADDING_def)
  have e: "\<bar>23 / 33 - 697 / 1000\<bar> < (1 / 1000 :: real)" "\<bar>2054 / 11 - 1867 / 10\<bar> < (1 / 10 :: real)"
    by simp_all
  show ?thesis using n a b c d e by blast
qed

theorem getFitValues_spec_witness:
  "svgDoc (initialState (window 0 600)\<lparr>svgDoc := Some letterDoc\<rparr>) = Some letterDoc
   \<and> width (window 0 600) * height (window 0 600) = 0
   \<and> getFitValues (window 0 600) (Some letterDoc) = None
   \<and> fitToViewport (initialState (window 0 600)\<lparr>svgDoc := Some letterDoc\<rparr>)
       = initialState (window 0 600)\<lparr>svgDoc := Some letterDoc\<rparr>
   \<and> scale (handleFit (initialState (window 0 600)\<lparr>svgDoc := Some letterDoc\<rparr>) 0) = 1
   \<and> width (window 148 148) * height (window 148 148) \<noteq> 0
   \<and> getFitValues (window 148 148) (Some squareDoc)
       = Some \<lparr>fit_scale = 1 / 10, fit_x = 24, fit_y = 24\<rparr>"
  using getFitValues_spec [where v = "window 0 600" and d = letterDoc
      and s = "initialState (window 0 600)\<lparr>svgDoc := Some letterDoc\<rparr>" and ?d1.0 = letterDoc
      and t = 0 and ?v2.0 = "window 148 148" and ?d2.0 = squareDoc]
  by (simp add: initialState_def window_def squareDoc_def Let_def)

text \<open>
  The scenario of C4 as the claim gives it: in an 800 x 600 viewport the 612 x 792
  document is placed at x = 2054/11, more than 89 away from 97.7, and at y = 24, not 24.4.
\<close>

theorem getFitValues_scenario_counterexample:
  "getFitValues (window 800 600) (Some letterDoc)
     = Some \<lparr>fit_scale = 23 / 33, fit_x = 2054 / 11, fit_y = 24\<rparr>
   \<and> \<bar>fit_x (the (getFitValues (window 800 600) (Some letterDoc))) - 977 / 10\<bar> > 89
   \<and> \<bar>fit_y (the (getFitValues (window 800 600) (Some letterDoc))) - 244 / 10\<bar> = 4 / 10"
  by (simp add: getFitValues_def window_def letterDoc_def Let_def EDGE_PADDING_def)

section \<open>The clamping invariant\<close>

lemma fit_width_le:
  fixes w :: real
  assumes "0 < w"
  shows "w * min ((vw - 48) / w) b \<le> vw - 48"
proof -
  have "w * min ((vw - 48) / w) b \<le> w * ((vw - 48) / w)"
    using assms by (intro mult_left_mono) simp_all
  also have "\<dots> = vw - 48" using assms by simp
  finally show ?thesis .
qed

lemma fit_height_le:
  fixes h :: real
  assumes "0 < h"
  shows "h * min a ((vh - 48) / h) \<le> vh - 48"
proof -
  have "h * min a ((vh - 48) / h) \<le> h * ((vh - 48) / h)"
    using assms by (intro mult_left_mono) simp_all
  also have "\<dots> = vh - 48" using assms by simp
  finally show ?thesis .
qed

lemma fit_is_fixed_point:
  assumes "0 < width_pt d" "0 < height_pt d" and "getFitValues v (Some d) = Some f"
  shows "clampTranslate v (Num (fit_x f)) (Num (fit_y f)) (fit_scale f) (Some d)
           = \<lparr>pt_x = Num (fit_x f), pt_y = Num (fit_y f)\<rparr>"
proof -
  from assms(3) have nz: "width v \<noteq> 0" "height v \<noteq> 0"
    using getFitValues_None_iff [of v d] by auto
  let ?sc = "min ((width v - 48) / width_pt d) ((height v - 48) / height_pt d)"
  have f: "fit_scale f = ?sc" "fit_x f = (width v - width_pt d * ?sc) / 2"
    "fit_y f = (height v - height_pt d * ?sc) / 2"
    using assms(3) getFitValues_Some [OF nz, of d] by auto
  have "width_pt d * ?sc \<le> width v - 48" by (rule fit_width_le [OF assms(1)])
  then have w: "width_pt d * ?sc \<le> width v" by simp
  have "height_pt d * ?sc \<le> height v - 48" by (rule fit_height_le [OF assms(2)])
  then have h: "height_pt d * ?sc \<le> height v" by simp
  show ?thesis
    using w h by (simp add: clampTranslate_def Let_def f)
qed

lemma clamped_fitToViewport:
  assumes "svgDoc s = Some d" "0 < width_pt d" "0 < height_pt d"
    and "getFitValues (viewport s) (svgDoc s) \<noteq> None"
  shows "clamped (fitToViewport s)"
proof -
  from assms(4) obtain f where f: "getFitValues (viewport s) (Some d) = Some f"
    using assms(1) by auto
  show ?thesis
    using fit_is_fixed_point [OF assms(2,3) f] f assms(1)
    by (simp add: clamped_def clampedAt_def fitToViewport_def)
qed

lemma handleFit_target:
  assumes "svgDoc s = Some d" "0 < width_pt d" "0 < height_pt d"
    and "getFitValues (viewport s) (svgDoc s) \<noteq> None"
    and "zoomAnimation (handleFit s t) = Some a"
  shows "isNum (targetX a) \<and> isNum (targetY a)
         \<and> clampTranslate (viewport s) (targetX a) (targetY a) (targetScale a) (svgDoc s)
             = \<lparr>pt_x = targetX a, pt_y = targetY a\<rparr>"
proof -
  from assms(4) obtain f where f: "getFitValues (viewport s) (Some d) = Some f"
    using assms(1) by auto
  have "targetX a = Num (fit_x f) \<and> targetY a = Num (fit_y f) \<and> targetScale a = fit_scale f"
    using assms(1,5) f by (auto simp: handleFit_def animateZoom_def Let_def)
  then show ?thesis
    using fit_is_fixed_point [OF assms(2,3) f] assms(1) by simp
qed

lemma finiteTranslate_Num:
  assumes "finiteTranslate s"
  obtains a b where "pt_x (translate s) = Num a" "pt_y (translate s) = Num b"
  using assms unfolding finiteTranslate_def
  by (cases "pt_x (translate s)"; cases "pt_y (translate s)") simp_all

lemma clamped_wheelZoom:
  assumes "scale s \<noteq> 0" "finiteTranslate s"
  shows "clamped (wheelZoom s e)"
proof -
  obtain a b where t: "pt_x (translate s) = Num a" "pt_y (translate s) = Num b"
    using assms(2) by (rule finiteTranslate_Num)
  show ?thesis
    using assms(1)
    by (simp add: clamped_def clampedAt_def wheelZoom_def Let_def t js_div_def
        clampTranslate_idem clampTranslate_isNum)
qed

lemma clampedAt_handlePointerMove:
  assumes "isDragging s" "finiteTranslate s"
  shows "clampedAt (scale s) (handlePointerMove s cx cy)
         \<and> scale (handlePointerMove s cx cy) = scale s"
proof -
  obtain a b where t: "pt_x (translate s) = Num a" "pt_y (translate s) = Num b"
    using assms(2) by (rule finiteTranslate_Num)
  show ?thesis
    using assms(1)
    by (simp add: clampedAt_def handlePointerMove_def Let_def t clampTranslate_idem
        clampTranslate_isNum)
qed

lemma clampedAt_handleResize:
  assumes "\<not> isFitMode s" "finiteTranslate s"
  shows "clampedAt (scale s) (handleResize s vp) \<and> scale (handleResize s vp) = scale s"
proof -
  obtain a b where t: "pt_x (translate s) = Num a" "pt_y (translate s) = Num b"
    using assms(2) by (rule finiteTranslate_Num)
  show ?thesis
    using assms(1)
    by (simp add: clampedAt_def handleResize_def Let_def t clampTranslate_idem
        clampTranslate_isNum)
qed

lemma handleWheel_scale:
  "\<not> ctrlKey e \<Longrightarrow> scale (handleWheel s e) = scale s"
  by (simp add: handleWheel_def wheelPageTurn_def Let_def split: option.splits)

lemma clampedAt_pan:
  assumes "\<not> ctrlKey e" "pansHorizontally s e \<or> pansVertically s e" "finiteTranslate s"
  shows "clampedAt (scale s) (handleWheel s e)"
proof -
  obtain a b where t: "pt_x (translate s) = Num a" "pt_y (translate s) = Num b"
    using assms(3) by (rule finiteTranslate_Num)
  show ?thesis
    using assms(1,2)
    by (auto simp add: clampedAt_def handleWheel_def Let_def t clampTranslate_idem
        clampTranslate_isNum)
qed

lemma wheelPageTurn_clampedAt:
  assumes "finiteTranslate s"
  shows "translate (wheelPageTurn s e) = translate s \<or> clampedAt (scale s) (wheelPageTurn s e)"
proof -
  obtain a b where t: "pt_x (translate s) = Num a" "pt_y (translate s) = Num b"
    using assms by (rule finiteTranslate_Num)
  show ?thesis
    by (simp add: clampedAt_def wheelPageTurn_def Let_def t clampTranslate_idem
        clampTranslate_isNum split: option.splits)
qed

lemma clampedAt_wheel_moved:
  assumes "\<not> ctrlKey e" and "translate (handleWheel s e) \<noteq> translate s" and "finiteTranslate s"
  shows "clampedAt (scale s) (handleWheel s e)"
proof (cases "pansHorizontally s e \<or> pansVertically s e")
  case True
  then show ?thesis using assms(1,3) by (intro clampedAt_pan)
next
  case False
  then have "handleWheel s e = (if deltaY e \<noteq> 0 then wheelPageTurn s e else s)"
    using assms(1) by (simp add: handleWheel_def Let_def)
  then show ?thesis
    using assms(2) wheelPageTurn_clampedAt [OF assms(3), of e] by (auto split: if_splits)
qed

lemma handleZoomIn_target:
  assumes "zoomAnimation (handleZoomIn s t) = Some a" "scale s \<noteq> 0" "finiteTranslate s"
  shows "isNum (targetX a) \<and> isNum (targetY a)
         \<and> clampTranslate (viewport s) (targetX a) (targetY a) (targetScale a) (svgDoc s)
             = \<lparr>pt_x = targetX a, pt_y = targetY a\<rparr>"
proof -
  obtain a0 b0 where t0: "pt_x (translate s) = Num a0" "pt_y (translate s) = Num b0"
    using assms(3) by (rule finiteTranslate_Num)
  show ?thesis
    using assms(1,2)
    by (auto simp add: handleZoomIn_def animateZoom_def Let_def t0 js_div_def
        clampTranslate_idem clampTranslate_isNum)
qed

lemma handleZoomOut_target:
  assumes "zoomAnimation (handleZoomOut s t) = Some a" "scale s \<noteq> 0" "finiteTranslate s"
  shows "isNum (targetX a) \<and> isNum (targetY a)
         \<and> clampTranslate (viewport s) (targetX a) (targetY a) (targetScale a) (svgDoc s)
             = \<lparr>pt_x = targetX a, pt_y = targetY a\<rparr>"
proof -
  obtain a0 b0 where t0: "pt_x (translate s) = Num a0" "pt_y (translate s) = Num b0"
    using assms(3) by (rule finiteTranslate_Num)
  show ?thesis
    using assms(1,2)
    by (auto simp add: handleZoomOut_def animateZoom_def Let_def t0 js_div_def
        clampTranslate_idem clampTranslate_isNum)
qed

lemma animate_final:
  assumes "0 < duration a" "startTime a + duration a \<le> t" "isNum (startX a)" "isNum (startY a)"
  shows "animate a t s = s\<lparr>scale := targetScale a,
            translate := \<lparr>pt_x = targetX a, pt_y = targetY a\<rparr>, zoomAnimation := None\<rparr>"
proof -
  have "1 \<le> (t - startTime a) / duration a" using assms by (simp add: field_simps)
  then have p: "min ((t - startTime a) / duration a) 1 = 1" by simp
  have e: "js_add x (js_mul (js_sub y x) (Num 1)) = y" if "isNum x" for x y
    using that by (cases x; cases y) (simp_all add: js_inf_def)
  show ?thesis by (simp add: animate_def Let_def p e assms(3,4))
qed

text \<open>
  C1 (amended). The handlers read the scale and the translate through
  \<^verbatim>\<open>scaleRef\<close> and \<^verbatim>\<open>translateRef\<close>; in the statement these are the scale and the translate
  of the state the handler starts from. Provided the translate read is finite:
  a ctrl-wheel zoom at a scale other than 0 commits a new scale together with a translate
  that is a finite fixed point of \<^verbatim>\<open>clampTranslate\<close> at that new scale; a wheel pan, a
  gesture page-turn reposition, a pointer drag and a resize outside fit mode leave the
  scale alone and commit a translate that is a finite fixed point of \<^verbatim>\<open>clampTranslate\<close>
  at the scale the handler read. \<^verbatim>\<open>fitToViewport\<close>, for a document of positive page size,
  commits a scale and a translate that is a fixed point at that scale. The targets that
  zoom-in and zoom-out (at a scale other than 0, from a finite translate) and fit hand
  to the animation are finite fixed points at the target scale, and a frame at or after
  the end of the duration of an animation that started from a finite translate commits
  exactly the target. (Earlier frames commit the linear interpolation between start and
  target, unclamped; at scale 0 the zoom handlers divide by zero, see
  \<open>zoomOut_at_zero_scale\<close> below.)
\<close>

theorem committed_translate_fixed_point:
  "(ctrlKey e1 \<and> scale s1 \<noteq> 0 \<and> finiteTranslate s1 \<longrightarrow> clamped (handleWheel s1 e1))
   \<and> (\<not> ctrlKey e2 \<and> (pansHorizontally s2 e2 \<or> pansVertically s2 e2) \<and> finiteTranslate s2 \<longrightarrow>
        clampedAt (scale s2) (handleWheel s2 e2) \<and> scale (handleWheel s2 e2) = scale s2)
   \<and> (\<not> ctrlKey e3 \<and> translate (handleWheel s3 e3) \<noteq> translate s3 \<and> finiteTranslate s3 \<longrightarrow>
        clampedAt (scale s3) (handleWheel s3 e3) \<and> scale (handleWheel s3 e3) = scale s3)
   \<and> (isDragging s4 \<and> finiteTranslate s4 \<longrightarrow>
        clampedAt (scale s4) (handlePointerMove s4 cx cy)
        \<and> scale (handlePointerMove s4 cx cy) = scale s4)
   \<and> (\<not> isFitMode s5 \<and> finiteTranslate s5 \<longrightarrow>
        clampedAt (scale s5) (handleResize s5 vp) \<and> scale (handleResize s5 vp) = scale s5)
   \<and> (svgDoc s6 = Some d6 \<and> 0 < width_pt d6 \<and> 0 < height_pt d6
        \<and> getFitValues (viewport s6) (svgDoc s6) \<noteq> None \<longrightarrow> clamped (fitToViewport s6))
   \<and> (zoomAnimation (handleZoomIn s7 t7) = Some a7 \<and> scale s7 \<noteq> 0 \<and> finiteTranslate s7 \<longrightarrow>
        isNum (targetX a7) \<and> isNum (targetY a7)
        \<and> clampTranslate (viewport s7) (targetX a7) (targetY a7) (targetScale a7) (svgDoc s7)
            = \<lparr>pt_x = targetX a7, pt_y = targetY a7\<rparr>)
   \<and> (zoomAnimation (handleZoomOut s8 t8) = Some a8 \<and> scale s8 \<noteq> 0 \<and> finiteTranslate s8 \<longrightarrow>
        isNum (targetX a8) \<and> isNum (targetY a8)
        \<and> clampTranslate (viewport s8) (targetX a8) (targetY a8) (targetScale a8) (svgDoc s8)
            = \<lparr>pt_x = targetX a8, pt_y = targetY a8\<rparr>)
   \<and> (svgDoc s9 = Some d9 \<and> 0 < width_pt d9 \<and> 0 < height_pt d9
        \<and> getFitValues (viewport s9) (svgDoc s9) \<noteq> None
        \<and> zoomAnimation (handleFit s9 t9) = Some a9 \<longrightarrow>
        isNum (targetX a9) \<and> isNum (targetY a9)
        \<and> clampTranslate (viewport s9) (targetX a9) (targetY a9) (targetScale a9) (svgDoc s9)
            = \<lparr>pt_x = targetX a9, pt_y = targetY a9\<rparr>)
   \<and> (0 < duration a \<and> startTime a + duration a \<le> t \<and> isNum (startX a) \<and> isNum (startY a) \<longrightarrow>
        animate a t s = s\<lparr>scale := targetScale a,
            translate := \<lparr>pt_x = targetX a, pt_y = targetY a\<rparr>, zoomAnimation := None\<rparr>)"
proof -
  have c1: "ctrlKey e1 \<and> scale s1 \<noteq> 0 \<and> finiteTranslate s1 \<longrightarrow> clamped (handleWheel s1 e1)"
    by (simp add: handleWheel_def clamped_wheelZoom)
  have c2: "\<not> ctrlKey e2 \<and> (pansHorizontally s2 e2 \<or> pansVertically s2 e2) \<and> finiteTranslate s2 \<longrightarrow>
        clampedAt (scale s2) (handleWheel s2 e2) \<and> scale (handleWheel s2 e2) = scale s2"
    using clampedAt_pan [of e2 s2] handleWheel_scale [of e2 s2] by blast
  have c3: "\<not> ctrlKey e3 \<and> translate (handleWheel s3 e3) \<noteq> translate s3 \<and> finiteTranslate s3 \<longrightarrow>
        clampedAt (scale s3) (handleWheel s3 e3) \<and> scale (handleWheel s3 e3) = scale s3"
    using clampedAt_wheel_moved [of e3 s3] handleWheel_scale [of e3 s3] by blast
  have c4: "isDragging s4 \<and> finiteTranslate s4 \<longrightarrow>
        clampedAt (scale s4) (handlePointerMove s4 cx cy)
        \<and> scale (handlePointerMove s4 cx cy) = scale s4"
    using clampedAt_handlePointerMove [of s4 cx cy] by blast
  have c5: "\<not> isFitMode s5 \<and> finiteTranslate s5 \<longrightarrow>
        clampedAt (scale s5) (handleResize s5 vp) \<and> scale (handleResize s5 vp) = scale s5"
    using clampedAt_handleResize [of s5 vp] by blast
  have c6: "svgDoc s6 = Some d6 \<and> 0 < width_pt d6 \<and> 0 < height_pt d6
        \<and> getFitValues (viewport s6) (svgDoc s6) \<noteq> None \<longrightarrow> clamped (fitToViewport s6)"
    using clamped_fitToViewport [of s6 d6] by blast
  have c7: "zoomAnimation (handleZoomIn s7 t7) = Some a7 \<and> scale s7 \<noteq> 0 \<and> finiteTranslate s7 \<longrightarrow>
        isNum (targetX a7) \<and> isNum (targetY a7)
        \<and> clampTranslate (viewport s7) (targetX a7) (targetY a7) (targetScale a7) (svgDoc s7)
            = \<lparr>pt_x = targetX a7, pt_y = targetY a7\<rparr>"
    using handleZoomIn_target [of s7 t7 a7] by blast
  have c8: "zoomAnimation (handleZoomOut s8 t8) = Some a8 \<and> scale s8 \<noteq> 0 \<and> finiteTranslate s8 \<longrightarrow>
        isNum (targetX a8) \<and> isNum (targetY a8)
        \<and> clampTranslate (viewport s8) (targetX a8) (targetY a8) (targetScale a8) (svgDoc s8)
            = \<lparr>pt_x = targetX a8, pt_y = targetY a8\<rparr>"
    using handleZoomOut_target [of s8 t8 a8] by blast
  have c9: "svgDoc s9 = Some d9 \<and> 0 < width_pt d9 \<and> 0 < height_pt d9
        \<and> getFitValues (viewport s9) (svgDoc s9) \<noteq> None
        \<and> zoomAnimation (handleFit s9 t9) = Some a9 \<longrightarrow>
        isNum (targetX a9) \<and> isNum (targetY a9)
        \<and> clampTranslate (viewport s9) (targetX a9) (targetY a9) (targetScale a9) (svgDoc s9)
            = \<lparr>pt_x = targetX a9, pt_y = targetY a9\<rparr>"
    using handleFit_target [of s9 d9 t9 a9] by blast
  have c10: "0 < duration a \<and> startTime a + duration a \<le> t \<and> isNum (startX a) \<and> isNum (startY a) \<longrightarrow>
        animate a t s = s\<lparr>scale := targetScale a,
            translate := \<lparr>pt_x = targetX a, pt_y = targetY a\<rparr>, zoomAnimation := None\<rparr>"
    using animate_final [of a t s] by blast
  show ?thesis
    by (intro conjI c1 c2 c3 c4 c5 c6 c7 c8 c9 c10)
qed

theorem committed_translate_fixed_point_witness:
  "ctrlKey (pinch 0) \<and> scale zoomedState \<noteq> 0 \<and> finiteTranslate zoomedState
   \<and> clamped (handleWheel zoomedState (pinch 0))
   \<and> pansHorizontally zoomedState (trackpad 5 0 0)
   \<and> clampedAt (5 / 4) (handleWheel zoomedState (trackpad 5 0 0))
   \<and> translate (handleWheel zoomedState (trackpad 0 7 0))
        = \<lparr>pt_x = Num (- 101), pt_y = Num (- 108)\<rparr>
   \<and> clampedAt (5 / 4) (handleWheel zoomedState (trackpad 0 7 0))
   \<and> clampedAt (5 / 4) (handlePointerMove (zoomedState\<lparr>isDragging := True\<rparr>) 10 10)
   \<and> clampedAt (5 / 4) (handleResize zoomedState (window 2000 2000))
   \<and> clamped (fitToViewport fittedState)
   \<and> scale fittedState \<noteq> 0 \<and> finiteTranslate fittedState
   \<and> zoomAnimation (handleZoomIn fittedState 0) = Some zoomInAnimation
   \<and> clampTranslate (window 1048 1048) (Num (- 101)) (Num (- 101)) (5 / 4) (Some squareDoc)
        = \<lparr>pt_x = Num (- 101), pt_y = Num (- 101)\<rparr>
   \<and> zoomAnimation (handleZoomOut zoomedState 0) = Some zoomBackAnimation
   \<and> zoomAnimation (handleFit zoomedState 0) = Some zoomBackAnimation
   \<and> clampTranslate (window 1048 1048) (Num 24) (Num 24) 1 (Some squareDoc)
        = \<lparr>pt_x = Num 24, pt_y = Num 24\<rparr>
   \<and> animate zoomInAnimation 200 (handleZoomIn fittedState 0) = zoomedState"
proof -
  have sc: "scale zoomedState = 5 / 4" "scale (zoomedState\<lparr>isDragging := True\<rparr>) = 5 / 4"
    "scale fittedState = 1"
    by (simp_all add: zoomedState_eq fittedState_eq)
  have fin: "finiteTranslate zoomedState" "finiteTranslate (zoomedState\<lparr>isDragging := True\<rparr>)"
    "finiteTranslate fittedState"
    by (simp_all add: finiteTranslate_def zoomedState_eq fittedState_eq)
  have h1: "ctrlKey (pinch 0)" by (simp add: pinch_def)
  have h2: "\<not> ctrlKey (trackpad 5 0 0)" "pansHorizontally zoomedState (trackpad 5 0 0)"
    by (simp_all add: trackpad_def pansHorizontally_def getOverflowState_def zoomedState_eq
        squareDoc_def window_def EDGE_PADDING_def Let_def)
  have h3: "\<not> ctrlKey (trackpad 0 7 0)"
    "translate (handleWheel zoomedState (trackpad 0 7 0))
       = \<lparr>pt_x = Num (- 101), pt_y = Num (- 108)\<rparr>"
    "translate zoomedState = \<lparr>pt_x = Num (- 101), pt_y = Num (- 101)\<rparr>"
    by (simp_all add: trackpad_def handleWheel_def pansHorizontally_def pansVertically_def
        getOverflowState_def clampTranslate_def zoomedState_eq squareDoc_def window_def
        EDGE_PADDING_def Let_def)
  have h4: "isDragging (zoomedState\<lparr>isDragging := True\<rparr>)" by simp
  have h5: "\<not> isFitMode zoomedState" by (simp add: zoomedState_eq)
  have h6: "svgDoc fittedState = Some squareDoc" "0 < width_pt squareDoc" "0 < height_pt squareDoc"
    "getFitValues (viewport fittedState) (svgDoc fittedState) \<noteq> None"
    by (simp_all add: fittedState_eq squareDoc_def getFitValues_def window_def Let_def)
  have h7: "zoomAnimation (handleZoomIn fittedState 0) = Some zoomInAnimation"
    by (simp add: fittedState_eq zoomInAnimation_def squareDoc_def run_simps)
  have h8: "zoomAnimation (handleZoomOut zoomedState 0) = Some zoomBackAnimation"
    by (simp add: zoomedState_eq zoomBackAnimation_def squareDoc_def run_simps)
  have h9: "svgDoc zoomedState = Some squareDoc"
    "getFitValues (viewport zoomedState) (svgDoc zoomedState) \<noteq> None"
    "zoomAnimation (handleFit zoomedState 0) = Some zoomBackAnimation"
    by (simp_all add: zoomedState_eq zoomBackAnimation_def squareDoc_def run_simps)
  have h10: "0 < duration zoomInAnimation"
    "startTime zoomInAnimation + duration zoomInAnimation \<le> 200"
    "isNum (startX zoomInAnimation)" "isNum (startY zoomInAnimation)"
    by (simp_all add: zoomInAnimation_def)
  have v: "viewport fittedState = window 1048 1048" "viewport zoomedState = window 1048 1048"
    "targetX zoomInAnimation = Num (- 101)" "targetY zoomInAnimation = Num (- 101)"
    "targetScale zoomInAnimation = 5 / 4"
    "targetX zoomBackAnimation = Num 24" "targetY zoomBackAnimation = Num 24"
    "targetScale zoomBackAnimation = 1"
    by (simp_all add: fittedState_eq zoomedState_eq zoomInAnimation_def zoomBackAnimation_def)
  have e: "(handleZoomIn fittedState 0)\<lparr>scale := 5 / 4,
       translate := \<lparr>pt_x = Num (- 101), pt_y = Num (- 101)\<rparr>, zoomAnimation := None\<rparr>
       = zoomedState"
    by (simp add: fittedState_eq zoomedState_eq squareDoc_def run_simps)
  note T = committed_translate_fixed_point [where ?e1.0 = "pinch 0" and ?s1.0 = zoomedState
      and ?e2.0 = "trackpad 5 0 0" and ?s2.0 = zoomedState
      and ?e3.0 = "trackpad 0 7 0" and ?s3.0 = zoomedState
      and ?s4.0 = "zoomedState\<lparr>isDragging := True\<rparr>" and cx = 10 and cy = 10
      and ?s5.0 = zoomedState and vp = "window 2000 2000"
      and ?s6.0 = fittedState and ?d6.0 = squareDoc
      and ?s7.0 = fittedState and ?t7.0 = 0 and ?a7.0 = zoomInAnimation
      and ?s8.0 = zoomedState and ?t8.0 = 0 and ?a8.0 = zoomBackAnimation
      and ?s9.0 = zoomedState and ?d9.0 = squareDoc and ?t9.0 = 0 and ?a9.0 = zoomBackAnimation
      and a = zoomInAnimation and t = 200 and s = "handleZoomIn fittedState 0"]
  show ?thesis
    using T sc fin h1 h2 h3 h4 h5 h6 h7 h8 h9 h10 v e by simp
qed

text \<open>
  Why the scale 0 is excluded. A letter-size document fitted into a viewport 48 pixels
  wide has scale 0 and translate (24, 300), the centre of the viewport. Zoom-out there
  computes \<^verbatim>\<open>scaleRatio = 0.1 / 0 = Infinity\<close> and \<^verbatim>\<open>newX = 24 - (24 - 24) * Infinity = NaN\<close>;
  at the new scale 0.1 the page is wider than the viewport, \<^verbatim>\<open>clampTranslate\<close> returns
  \<^verbatim>\<open>Math.min(24, Math.max(-37.2, NaN)) = NaN\<close>, and the last frame of the animation commits
  it.
\<close>

lemma zoomOut_at_zero_scale:
  "scale zeroScaleState = 0
   \<and> translate zeroScaleState = \<lparr>pt_x = Num 24, pt_y = Num 300\<rparr>
   \<and> zoomAnimation (handleZoomOut zeroScaleState 0)
       = Some \<lparr>startScale = 0, startX = Num 24, startY = Num 300, startTime = 0,
               targetScale = 1 / 10, targetX = NaN, targetY = Num (1302 / 5), duration = 200\<rparr>
   \<and> scale (run zeroScaleState [ClickZoomOut 0, AnimationFrame 200]) = 1 / 10
   \<and> translate (run zeroScaleState [ClickZoomOut 0, AnimationFrame 200])
       = \<lparr>pt_x = NaN, pt_y = Num (1302 / 5)\<rparr>
   \<and> \<not> clamped (run zeroScaleState [ClickZoomOut 0, AnimationFrame 200])"
  by (simp add: zeroScaleState_def clamped_def clampedAt_def letterDoc_def run_simps)

text \<open>
  C1 as stated fails at an animation frame: the frame at progress 1/2 of the fit
  animation commits scale 33/32 and translate (24, 24), while \<^verbatim>\<open>clampTranslate\<close> at
  that scale centres the document at (67/8, 67/8).
\<close>

theorem animation_frame_not_clamped_counterexample:
  "scale midAnimationState = 33 / 32
   \<and> translate midAnimationState = \<lparr>pt_x = Num 24, pt_y = Num 24\<rparr>
   \<and> clampTranslate (viewport midAnimationState) (pt_x (translate midAnimationState))
        (pt_y (translate midAnimationState)) (scale midAnimationState)
        (svgDoc midAnimationState) = \<lparr>pt_x = Num (67 / 8), pt_y = Num (67 / 8)\<rparr>
   \<and> \<not> clamped midAnimationState"
  by (simp add: midAnimationState_def clamped_def clampedAt_def squareDoc_def run_simps)

section \<open>Bounds of the scale\<close>

lemma wheelZoom_scale:
  "1 / 10 \<le> scale (wheelZoom s e) \<and> scale (wheelZoom s e) \<le> 4"
  by (simp add: wheelZoom_def Let_def)

lemma handleZoomIn_scale:
  assumes "zoomAnimation (handleZoomIn s t) = Some a"
  shows "targetScale a = min 4 (scale s * (125 / 100)) \<and> startScale a = scale s
         \<and> scale (handleZoomIn s t) = scale s"
  using assms by (auto simp: handleZoomIn_def animateZoom_def Let_def)

lemma handleZoomOut_scale:
  assumes "zoomAnimation (handleZoomOut s t) = Some a"
  shows "targetScale a = max (1 / 10) (scale s / (125 / 100)) \<and> startScale a = scale s
         \<and> scale (handleZoomOut s t) = scale s"
  using assms by (auto simp: handleZoomOut_def animateZoom_def Let_def)

lemma eased_unit:
  fixes p :: real
  assumes "0 \<le> p" "p \<le> 1"
  shows "0 \<le> 1 - (1 - p) ^ 3 \<and> 1 - (1 - p) ^ 3 \<le> 1"
proof -
  have "0 \<le> 1 - p" "1 - p \<le> 1" using assms by simp_all
  then have "0 \<le> (1 - p) ^ 3" "(1 - p) ^ 3 \<le> 1"
    by (simp_all add: power_le_one)
  then show ?thesis by simp
qed

lemma interpolate_between:
  fixes a b e :: real
  assumes "0 \<le> e" "e \<le> 1"
  shows "min a b \<le> a + (b - a) * e \<and> a + (b - a) * e \<le> max a b"
proof (cases "a \<le> b")
  case True
  then have "0 \<le> (b - a) * e" using assms by simp
  moreover have "(b - a) * e \<le> (b - a) * 1"
    using True assms by (intro mult_left_mono) simp_all
  ultimately show ?thesis using True by (simp add: min_def max_def)
next
  case False
  then have ba: "b - a \<le> 0" by simp
  then have "(b - a) * e \<le> 0" using assms by (simp add: mult_nonpos_nonneg)
  moreover have "(b - a) * 1 \<le> (b - a) * e"
    using ba assms by (intro mult_left_mono_neg) simp_all
  then have "b - a \<le> (b - a) * e" by simp
  ultimately have "b \<le> a + (b - a) * e \<and> a + (b - a) * e \<le> a" by linarith
  then show ?thesis using False by (simp add: min_def max_def)
qed

lemma animate_scale_between:
  assumes "0 < duration a" "startTime a \<le> t"
  shows "min (startScale a) (targetScale a) \<le> scale (animate a t s)
         \<and> scale (animate a t s) \<le> max (startScale a) (targetScale a)"
proof -
  define p where "p = min ((t - startTime a) / duration a) 1"
  have "0 \<le> (t - startTime a) / duration a" using assms by simp
  then have p: "0 \<le> p" "p \<le> 1" by (simp_all add: p_def)
  have "scale (animate a t s) = startScale a + (targetScale a - startScale a) * (1 - (1 - p) ^ 3)"
    by (simp add: animate_def Let_def p_def)
  then show ?thesis
    using interpolate_between [of "1 - (1 - p) ^ 3" "startScale a" "targetScale a"]
      eased_unit [OF p] by simp
qed

text \<open>
  C2 (amended). A ctrl-wheel zoom writes a scale in [0.1, 4]. Zoom-in and zoom-out
  start an animation from the current scale to min(4, scale * 1.25) and
  max(0.1, scale / 1.25), which lie in [0.1, 4] when the current scale does. An
  animation frame at or after the start time writes a scale between the start scale and
  the target scale. Fit-to-viewport writes
  min((width - 48) / docWidth, (height - 48) / docHeight) without clamping it, and the
  fit button animates to that scale.
\<close>

theorem scale_written_by_operations:
  "(ctrlKey e1 \<longrightarrow> 1 / 10 \<le> scale (handleWheel s1 e1) \<and> scale (handleWheel s1 e1) \<le> 4)
   \<and> (1 / 10 \<le> scale s2 \<and> scale s2 \<le> 4 \<and> zoomAnimation (handleZoomIn s2 t2) = Some a2 \<longrightarrow>
        startScale a2 = scale s2 \<and> targetScale a2 = min 4 (scale s2 * (125 / 100))
        \<and> 1 / 10 \<le> targetScale a2 \<and> targetScale a2 \<le> 4)
   \<and> (1 / 10 \<le> scale s3 \<and> scale s3 \<le> 4 \<and> zoomAnimation (handleZoomOut s3 t3) = Some a3 \<longrightarrow>
        startScale a3 = scale s3 \<and> targetScale a3 = max (1 / 10) (scale s3 / (125 / 100))
        \<and> 1 / 10 \<le> targetScale a3 \<and> targetScale a3 \<le> 4)
   \<and> (0 < duration a4 \<and> startTime a4 \<le> t4 \<longrightarrow>
        min (startScale a4) (targetScale a4) \<le> scale (animate a4 t4 s4)
        \<and> scale (animate a4 t4 s4) \<le> max (startScale a4) (targetScale a4))
   \<and> (svgDoc s5 = Some d5 \<and> width (viewport s5) \<noteq> 0 \<and> height (viewport s5) \<noteq> 0 \<longrightarrow>
        scale (fitToViewport s5)
          = min ((width (viewport s5) - 48) / width_pt d5) ((height (viewport s5) - 48) / height_pt d5))
   \<and> (svgDoc s6 = Some d6 \<and> width (viewport s6) \<noteq> 0 \<and> height (viewport s6) \<noteq> 0
        \<and> zoomAnimation (handleFit s6 t6) = Some a6 \<longrightarrow>
        startScale a6 = scale s6
        \<and> targetScale a6
          = min ((width (viewport s6) - 48) / width_pt d6) ((height (viewport s6) - 48) / height_pt d6))"
proof -
  have a: "ctrlKey e1 \<longrightarrow> 1 / 10 \<le> scale (handleWheel s1 e1) \<and> scale (handleWheel s1 e1) \<le> 4"
    using wheelZoom_scale [of s1 e1] by (simp add: handleWheel_def)
  have b: "startScale a2 = scale s2 \<and> targetScale a2 = min 4 (scale s2 * (125 / 100))
        \<and> 1 / 10 \<le> targetScale a2 \<and> targetScale a2 \<le> 4"
    if "1 / 10 \<le> scale s2" "scale s2 \<le> 4" "zoomAnimation (handleZoomIn s2 t2) = Some a2"
    using handleZoomIn_scale [OF that(3)] that(1,2) by simp
  have c: "startScale a3 = scale s3 \<and> targetScale a3 = max (1 / 10) (scale s3 / (125 / 100))
        \<and> 1 / 10 \<le> targetScale a3 \<and> targetScale a3 \<le> 4"
    if "1 / 10 \<le> scale s3" "scale s3 \<le> 4" "zoomAnimation (handleZoomOut s3 t3) = Some a3"
    using handleZoomOut_scale [OF that(3)] that(1,2) by simp
  have d: "scale (fitToViewport s5)
          = min ((width (viewport s5) - 48) / width_pt d5) ((height (viewport s5) - 48) / height_pt d5)"
    if "svgDoc s5 = Some d5" "width (viewport s5) \<noteq> 0" "height (viewport s5) \<noteq> 0"
    using that by (simp add: fitToViewport_def getFitValues_Some)
  have e: "startScale a6 = scale s6
        \<and> targetScale a6
          = min ((width (viewport s6) - 48) / width_pt d6) ((height (viewport s6) - 48) / height_pt d6)"
    if "svgDoc s6 = Some d6" "width (viewport s6) \<noteq> 0" "height (viewport s6) \<noteq> 0"
      "zoomAnimation (handleFit s6 t6) = Some a6"
    using that by (auto simp: handleFit_def animateZoom_def getFitValues_Some)
  show ?thesis
    using a b c d e animate_scale_between [of a4 t4 s4] by blast
qed

theorem scale_written_by_operations_witness:
  "ctrlKey (pinch 0) \<and> scale (handleWheel zoomedState (pinch 0)) = 5 / 4
   \<and> scale fittedState = 1
   \<and> zoomAnimation (handleZoomIn fittedState 0) = Some zoomInAnimation
   \<and> targetScale zoomInAnimation = 5 / 4
   \<and> scale zoomedState = 5 / 4
   \<and> zoomAnimation (handleZoomOut zoomedState 0) = Some zoomBackAnimation
   \<and> targetScale zoomBackAnimation = 1
   \<and> startTime zoomInAnimation \<le> 100
   \<and> 1 \<le> scale (animate zoomInAnimation 100 fittedState)
   \<and> scale (animate zoomInAnimation 100 fittedState) \<le> 5 / 4
   \<and> svgDoc narrowFitState = Some letterDoc
   \<and> scale (fitToViewport narrowFitState) = 13 / 198
   \<and> zoomAnimation (handleFit zoomedState 0) = Some zoomBackAnimation"
proof -
  have h1: "ctrlKey (pinch 0)" "scale (handleWheel zoomedState (pinch 0)) = 5 / 4"
    by (simp_all add: pinch_def handleWheel_def wheelZoom_def zoomedState_eq Let_def)
  have h2: "1 / 10 \<le> scale fittedState" "scale fittedState \<le> 4" "scale fittedState = 1"
    "zoomAnimation (handleZoomIn fittedState 0) = Some zoomInAnimation"
    by (simp_all add: fittedState_eq zoomInAnimation_def squareDoc_def run_simps)
  have h3: "1 / 10 \<le> scale zoomedState" "scale zoomedState \<le> 4" "scale zoomedState = 5 / 4"
    "zoomAnimation (handleZoomOut zoomedState 0) = Some zoomBackAnimation"
    by (simp_all add: zoomedState_eq zoomBackAnimation_def squareDoc_def run_simps)
  have h4: "0 < duration zoomInAnimation" "startTime zoomInAnimation \<le> 100"
    "startScale zoomInAnimation = 1" "targetScale zoomInAnimation = 5 / 4"
    by (simp_all add: zoomInAnimation_def)
  have h5: "svgDoc narrowFitState = Some letterDoc" "width (viewport narrowFitState) \<noteq> 0"
    "height (viewport narrowFitState) \<noteq> 0"
    "min ((width (viewport narrowFitState) - 48) / width_pt letterDoc)
         ((height (viewport narrowFitState) - 48) / height_pt letterDoc) = 13 / 198"
    by (simp_all add: narrowFitState_def letterDoc_def run_simps)
  note T = scale_written_by_operations [where ?e1.0 = "pinch 0" and ?s1.0 = zoomedState
      and ?s2.0 = fittedState and ?t2.0 = 0 and ?a2.0 = zoomInAnimation
      and ?s3.0 = zoomedState and ?t3.0 = 0 and ?a3.0 = zoomBackAnimation
      and ?a4.0 = zoomInAnimation and ?t4.0 = 100 and ?s4.0 = fittedState
      and ?s5.0 = narrowFitState and ?d5.0 = letterDoc
      and ?s6.0 = zoomedState and ?d6.0 = squareDoc and ?t6.0 = 0 and ?a6.0 = zoomBackAnimation]
  have h6: "svgDoc zoomedState = Some squareDoc" "width (viewport zoomedState) \<noteq> 0"
    "height (viewport zoomedState) \<noteq> 0"
    "zoomAnimation (handleFit zoomedState 0) = Some zoomBackAnimation"
    by (simp_all add: zoomedState_eq zoomBackAnimation_def squareDoc_def run_simps)
  show ?thesis
    using T h1 h2 h3 h4 h5 h6 by simp
qed

text \<open>
  C2 as stated fails at fit-to-viewport: a letter-size document fitted into a
  100 x 100 viewport gets the scale 13/198, below 0.1.
\<close>

theorem fit_scale_out_of_bounds_counterexample:
  "scale narrowFitState = 13 / 198
   \<and> \<not> (1 / 10 \<le> scale narrowFitState \<and> scale narrowFitState \<le> 4)"
  by (simp add: narrowFitState_def letterDoc_def run_simps)

section \<open>Page turns by continuous scrolling\<close>

lemma continuous_below:
  assumes "deltaMode e \<noteq> DOM_DELTA_LINE"
    and "\<bar>pageChangeAccumulator s + deltaY e\<bar> < PAGE_CHANGE_THRESHOLD
         \<or> \<not> now e - lastPageChangeTime s > PAGE_CHANGE_COOLDOWN"
  shows "wheelPageTurn s e = s\<lparr>pageChangeAccumulator := pageChangeAccumulator s + deltaY e\<rparr>"
  using assms by (auto simp add: wheelPageTurn_def Let_def)

lemma continuous_commit:
  assumes "deltaMode e \<noteq> DOM_DELTA_LINE"
    and "\<bar>pageChangeAccumulator s + deltaY e\<bar> \<ge> PAGE_CHANGE_THRESHOLD"
    and "now e - lastPageChangeTime s > PAGE_CHANGE_COOLDOWN"
    and "1 \<le> currentPage s + (if pageChangeAccumulator s + deltaY e > 0 then 1 else - 1)"
    and "currentPage s + (if pageChangeAccumulator s + deltaY e > 0 then 1 else - 1) \<le> refNumPages s"
  shows "currentPage (wheelPageTurn s e)
           = currentPage s + (if pageChangeAccumulator s + deltaY e > 0 then 1 else - 1)
         \<and> pageChangeAccumulator (wheelPageTurn s e) = 0
         \<and> lastPageChangeTime (wheelPageTurn s e) = now e"
  using assms by (simp add: wheelPageTurn_def Let_def split: option.splits)

lemma continuous_reject:
  assumes "deltaMode e \<noteq> DOM_DELTA_LINE"
    and "\<bar>pageChangeAccumulator s + deltaY e\<bar> \<ge> PAGE_CHANGE_THRESHOLD"
    and "now e - lastPageChangeTime s > PAGE_CHANGE_COOLDOWN"
    and "\<not> (1 \<le> currentPage s + (if pageChangeAccumulator s + deltaY e > 0 then 1 else - 1)
           \<and> currentPage s + (if pageChangeAccumulator s + deltaY e > 0 then 1 else - 1)
                \<le> refNumPages s)"
  shows "wheelPageTurn s e = s\<lparr>pageChangeAccumulator := 0\<rparr>"
  using assms by (auto simp add: wheelPageTurn_def Let_def)

text \<open>While every running total stays below the threshold, a run of continuous
  page-turn events changes the accumulator and nothing else.\<close>

lemma accumulate_run:
  assumes "\<forall>e \<in> set es. pageTurnIntent s e \<and> deltaMode e \<noteq> DOM_DELTA_LINE"
    and "\<forall>k \<in> {1..length es}.
           \<bar>pageChangeAccumulator s + sum_list (map deltaY (take k es))\<bar> < PAGE_CHANGE_THRESHOLD"
  shows "foldl handleWheel s es
           = s\<lparr>pageChangeAccumulator := pageChangeAccumulator s + sum_list (map deltaY es)\<rparr>"
  using assms
proof (induction es arbitrary: s)
  case Nil
  then show ?case by simp
next
  case (Cons e es)
  let ?s' = "s\<lparr>pageChangeAccumulator := pageChangeAccumulator s + deltaY e\<rparr>"
  have e: "pageTurnIntent s e" "deltaMode e \<noteq> DOM_DELTA_LINE" using Cons.prems(1) by simp_all
  have "1 \<in> {1..length (e # es)}" by simp
  from Cons.prems(2) [rule_format, OF this]
  have b: "\<bar>pageChangeAccumulator s + deltaY e\<bar> < PAGE_CHANGE_THRESHOLD" by simp
  have first: "handleWheel s e = ?s'"
    using pageTurnIntent_handleWheel [OF e(1)] continuous_below [OF e(2), of s] b by simp
  have r: "\<forall>e' \<in> set es. pageTurnIntent ?s' e' \<and> deltaMode e' \<noteq> DOM_DELTA_LINE"
    using Cons.prems(1) by (simp add: pageTurnIntent_cong [of ?s' s])
  have p: "\<forall>k \<in> {1..length es}.
     \<bar>pageChangeAccumulator ?s' + sum_list (map deltaY (take k es))\<bar> < PAGE_CHANGE_THRESHOLD"
  proof
    fix k assume "k \<in> {1..length es}"
    then have "Suc k \<in> {1..length (e # es)}" by simp
    from Cons.prems(2) [rule_format, OF this] show
      "\<bar>pageChangeAccumulator ?s' + sum_list (map deltaY (take k es))\<bar> < PAGE_CHANGE_THRESHOLD"
      by (simp add: add.assoc)
  qed
  show ?case
    using Cons.IH [OF r p] first by (simp add: add.assoc)
qed

text \<open>
  C5. A sequence \<open>es\<close> of continuous wheel events routed to page-turn intent, whose
  running totals stay below the threshold 20, followed by one more such event \<open>e'\<close>:
  every event adds its deltaY to the accumulator; the events of \<open>es\<close> change nothing
  else; if the total with \<open>e'\<close> stays below 20, \<open>e'\<close> changes nothing else either; if it
  reaches 20 with the cooldown elapsed and the candidate page
  currentPage + sign(pendingDelta) in [1, numPages], the page becomes the candidate (one
  page change) and the accumulator is reset to 0; if the candidate is out of range the
  accumulator is reset to 0 and the page is unchanged.
\<close>

theorem continuous_page_turn:
  assumes "\<forall>e \<in> set es \<union> {e'}. pageTurnIntent s e \<and> deltaMode e \<noteq> DOM_DELTA_LINE"
    and "\<forall>k \<in> {1..length es}.
           \<bar>pageChangeAccumulator s + sum_list (map deltaY (take k es))\<bar> < PAGE_CHANGE_THRESHOLD"
  shows "(let s1 = foldl handleWheel s es;
              s2 = handleWheel s1 e';
              pendingDelta = pageChangeAccumulator s + sum_list (map deltaY es) + deltaY e';
              cooldownElapsed = (now e' - lastPageChangeTime s > 150);
              candidatePage = currentPage s + (if pendingDelta > 0 then 1 else - 1);
              inRange = (1 \<le> candidatePage \<and> candidatePage \<le> refNumPages s)
          in s1 = s\<lparr>pageChangeAccumulator := pageChangeAccumulator s + sum_list (map deltaY es)\<rparr>
           \<and> (\<bar>pendingDelta\<bar> < 20 \<longrightarrow> s2 = s\<lparr>pageChangeAccumulator := pendingDelta\<rparr>)
           \<and> (\<bar>pendingDelta\<bar> \<ge> 20 \<and> cooldownElapsed \<and> inRange \<longrightarrow>
                currentPage s2 = candidatePage \<and> pageChangeAccumulator s2 = 0
                \<and> lastPageChangeTime s2 = now e')
           \<and> (\<bar>pendingDelta\<bar> \<ge> 20 \<and> cooldownElapsed \<and> \<not> inRange \<longrightarrow>
                s2 = s\<lparr>pageChangeAccumulator := 0\<rparr>)
           \<and> (\<bar>pendingDelta\<bar> \<ge> 20 \<and> \<not> cooldownElapsed \<longrightarrow>
                s2 = s\<lparr>pageChangeAccumulator := pendingDelta\<rparr>))"
proof -
  let ?s1 = "s\<lparr>pageChangeAccumulator := pageChangeAccumulator s + sum_list (map deltaY es)\<rparr>"
  have es: "\<forall>e \<in> set es. pageTurnIntent s e \<and> deltaMode e \<noteq> DOM_DELTA_LINE" using assms(1) by simp
  have s1: "foldl handleWheel s es = ?s1" by (rule accumulate_run [OF es assms(2)])
  have e': "pageTurnIntent ?s1 e'" "deltaMode e' \<noteq> DOM_DELTA_LINE"
    using assms(1) by (simp_all add: pageTurnIntent_cong [of ?s1 s])
  have hw: "handleWheel ?s1 e' = wheelPageTurn ?s1 e'" by (rule pageTurnIntent_handleWheel [OF e'(1)])
  show ?thesis
    unfolding Let_def s1 hw
    using continuous_below [OF e'(2), of ?s1] continuous_commit [OF e'(2), of ?s1]
      continuous_reject [OF e'(2), of ?s1]
    by (simp add: PAGE_CHANGE_THRESHOLD_def PAGE_CHANGE_COOLDOWN_def refNumPages_def)
qed

theorem continuous_page_turn_witness:
  "foldl handleWheel fittedState [trackpad 0 5 1000, trackpad 0 10 1010]
     = fittedState\<lparr>pageChangeAccumulator := 15\<rparr>
   \<and> handleWheel (fittedState\<lparr>pageChangeAccumulator := 15\<rparr>) (trackpad 0 1 1020)
       = fittedState\<lparr>pageChangeAccumulator := 16\<rparr>
   \<and> currentPage (handleWheel (fittedState\<lparr>pageChangeAccumulator := 15\<rparr>) (trackpad 0 5 1020)) = 2
   \<and> pageChangeAccumulator
        (handleWheel (fittedState\<lparr>pageChangeAccumulator := 15\<rparr>) (trackpad 0 5 1020)) = 0
   \<and> lastPageChangeTime
        (handleWheel (fittedState\<lparr>pageChangeAccumulator := 15\<rparr>) (trackpad 0 5 1020)) = 1020
   \<and> handleWheel (fittedState\<lparr>pageChangeAccumulator := 15\<rparr>) (trackpad 0 5 100)
       = fittedState\<lparr>pageChangeAccumulator := 20\<rparr>
   \<and> handleWheel (foldl handleWheel fittedState [trackpad 0 (- 15) 1000]) (trackpad 0 (- 5) 1010)
       = fittedState\<lparr>pageChangeAccumulator := 0\<rparr>"
proof -
  let ?es = "[trackpad 0 5 1000, trackpad 0 10 1010]"
  have f: "pageChangeAccumulator fittedState = 0" "currentPage fittedState = 1"
    "lastPageChangeTime fittedState = 0" "refNumPages fittedState = 2"
    by (simp_all add: fittedState_eq refNumPages_def squareDoc_def)
  have r: "\<forall>e \<in> set ?es \<union> {trackpad 0 dy t}. pageTurnIntent fittedState e \<and> deltaMode e \<noteq> DOM_DELTA_LINE"
    if "dy \<noteq> 0" for dy t
    using that by (auto simp: fitted_pageTurnIntent) (simp_all add: trackpad_def)
  have b: "\<forall>k \<in> {1..length ?es}.
      \<bar>pageChangeAccumulator fittedState + sum_list (map deltaY (take k ?es))\<bar> < PAGE_CHANGE_THRESHOLD"
  proof
    fix k assume "k \<in> {1..length ?es}"
    then have "k = 1 \<or> k = 2" by auto
    then show "\<bar>pageChangeAccumulator fittedState + sum_list (map deltaY (take k ?es))\<bar>
        < PAGE_CHANGE_THRESHOLD"
      by (auto simp: f trackpad_def PAGE_CHANGE_THRESHOLD_def numeral_2_eq_2)
  qed
  have r': "\<forall>e \<in> set [trackpad 0 (- 15) 1000] \<union> {trackpad 0 (- 5) 1010}.
      pageTurnIntent fittedState e \<and> deltaMode e \<noteq> DOM_DELTA_LINE"
    by (auto simp: fitted_pageTurnIntent) (simp_all add: trackpad_def)
  have b': "\<forall>k \<in> {1..length [trackpad 0 (- 15) 1000]}.
      \<bar>pageChangeAccumulator fittedState + sum_list (map deltaY (take k [trackpad 0 (- 15) 1000]))\<bar>
        < PAGE_CHANGE_THRESHOLD"
    by (simp add: f trackpad_def PAGE_CHANGE_THRESHOLD_def)
  have d: "deltaY (trackpad 0 dy t) = dy" "now (trackpad 0 dy t) = t" for dy t
    by (simp_all add: trackpad_def)
  have "(1::real) \<noteq> 0" "(5::real) \<noteq> 0" by simp_all
  note below = continuous_page_turn [OF r b, of 1 1020, OF \<open>(1::real) \<noteq> 0\<close>]
    and commit = continuous_page_turn [OF r b, of 5 1020, OF \<open>(5::real) \<noteq> 0\<close>]
    and cooling = continuous_page_turn [OF r b, of 5 100, OF \<open>(5::real) \<noteq> 0\<close>]
    and reject = continuous_page_turn [OF r' b']
  have s1: "foldl handleWheel fittedState ?es = fittedState\<lparr>pageChangeAccumulator := 15\<rparr>"
    using below by (simp add: Let_def f d)
  have rj: "handleWheel (foldl handleWheel fittedState [trackpad 0 (- 15) 1000])
        (trackpad 0 (- 5) 1010) = fittedState\<lparr>pageChangeAccumulator := 0\<rparr>"
    using reject by (auto simp: Let_def f d)
  show ?thesis
    using below commit cooling rj
    unfolding s1 by (simp add: Let_def f d)
qed

section \<open>Page turns by wheel clicks\<close>

text \<open>
  C6 (amended). For a discrete (line-mode) wheel event routed to page-turn intent: if
  now - lastPageChangeTime > 150 and currentPage + sign(deltaY) lies in [1, numPages],
  the page takes that value and lastPageChangeTime is set to now; otherwise the event
  changes nothing (at a boundary the time stamp is not updated). For a current page in
  range the resulting page is the step clamped to [1, numPages]. Of two such events, when
  the first one turned the page: spaced more than 150 ms apart, the second moves one page
  (clamped at the ends); spaced at most 150 ms apart, the second is a no-op.
\<close>

theorem discrete_page_turn:
  assumes "pageTurnIntent s e1" and "deltaMode e1 = DOM_DELTA_LINE"
    and "pageTurnIntent s e2" and "deltaMode e2 = DOM_DELTA_LINE"
  shows "(let s1 = handleWheel s e1;
              s2 = handleWheel s1 e2;
              candidate1 = currentPage s + (if deltaY e1 > 0 then 1 else - 1);
              candidate2 = currentPage s1 + (if deltaY e2 > 0 then 1 else - 1);
              turned1 = (now e1 - lastPageChangeTime s > 150
                         \<and> 1 \<le> candidate1 \<and> candidate1 \<le> refNumPages s)
          in (turned1 \<longrightarrow> s1 = s\<lparr>lastPageChangeTime := now e1, currentPage := candidate1\<rparr>)
           \<and> (\<not> turned1 \<longrightarrow> s1 = s)
           \<and> (now e1 - lastPageChangeTime s > 150 \<and> 1 \<le> currentPage s
                \<and> currentPage s \<le> refNumPages s \<longrightarrow>
                currentPage s1 = max 1 (min (refNumPages s) candidate1))
           \<and> (turned1 \<and> now e2 - now e1 > 150 \<longrightarrow>
                currentPage s2 = max 1 (min (refNumPages s) candidate2)
                \<and> (currentPage s2 \<noteq> currentPage s1 \<longrightarrow> lastPageChangeTime s2 = now e2))
           \<and> (turned1 \<and> now e2 - now e1 \<le> 150 \<longrightarrow> s2 = s1))"
proof -
  define c1 where "c1 = currentPage s + (if deltaY e1 > 0 then 1 else - 1)"
  define t1 where "t1 \<longleftrightarrow> now e1 - lastPageChangeTime s > 150 \<and> 1 \<le> c1 \<and> c1 \<le> refNumPages s"
  define s1 where "s1 = handleWheel s e1"
  define c2 where "c2 = currentPage s1 + (if deltaY e2 > 0 then 1 else - 1)"
  have s1: "s1 = (if t1 then s\<lparr>lastPageChangeTime := now e1, currentPage := c1\<rparr> else s)"
    unfolding s1_def pageTurnIntent_handleWheel [OF assms(1)] discrete_turn [OF assms(2)]
    by (simp add: t1_def c1_def PAGE_CHANGE_COOLDOWN_def)
  have fr: "viewport s1 = viewport s" "svgDoc s1 = svgDoc s" "scale s1 = scale s"
    "translate s1 = translate s"
    by (simp_all add: s1)
  have "pageTurnIntent s1 e2" using assms(3) fr by (simp add: pageTurnIntent_cong [of s1 s])
  then have h2: "handleWheel s1 e2 = wheelPageTurn s1 e2" by (rule pageTurnIntent_handleWheel)
  have rn: "refNumPages s1 = refNumPages s" using fr by (simp add: refNumPages_def)
  have s2: "handleWheel s1 e2 =
      (if now e2 - lastPageChangeTime s1 > 150 \<and> 1 \<le> c2 \<and> c2 \<le> refNumPages s
       then s1\<lparr>lastPageChangeTime := now e2, currentPage := c2\<rparr> else s1)"
    unfolding h2 discrete_turn [OF assms(4)] rn
    by (simp add: c2_def PAGE_CHANGE_COOLDOWN_def)
  have A: "t1 \<longrightarrow> s1 = s\<lparr>lastPageChangeTime := now e1, currentPage := c1\<rparr>" by (simp add: s1)
  have B: "\<not> t1 \<longrightarrow> s1 = s" by (simp add: s1)
  have C: "now e1 - lastPageChangeTime s > 150 \<and> 1 \<le> currentPage s
            \<and> currentPage s \<le> refNumPages s \<longrightarrow> currentPage s1 = max 1 (min (refNumPages s) c1)"
    by (auto simp: s1 t1_def c1_def min_def max_def)
  have D: "t1 \<and> now e2 - now e1 > 150 \<longrightarrow>
             currentPage (handleWheel s1 e2) = max 1 (min (refNumPages s) c2)
             \<and> (currentPage (handleWheel s1 e2) \<noteq> currentPage s1 \<longrightarrow>
                  lastPageChangeTime (handleWheel s1 e2) = now e2)"
  proof
    assume a: "t1 \<and> now e2 - now e1 > 150"
    then have p: "lastPageChangeTime s1 = now e1" "1 \<le> currentPage s1"
      "currentPage s1 \<le> refNumPages s"
      by (simp_all add: s1 t1_def)
    show "currentPage (handleWheel s1 e2) = max 1 (min (refNumPages s) c2)
             \<and> (currentPage (handleWheel s1 e2) \<noteq> currentPage s1 \<longrightarrow>
                  lastPageChangeTime (handleWheel s1 e2) = now e2)"
      using a p unfolding s2 by (auto simp: c2_def min_def max_def)
  qed
  have E: "t1 \<and> now e2 - now e1 \<le> 150 \<longrightarrow> handleWheel s1 e2 = s1"
  proof
    assume a: "t1 \<and> now e2 - now e1 \<le> 150"
    then have "lastPageChangeTime s1 = now e1" by (simp add: s1)
    with a show "handleWheel s1 e2 = s1" unfolding s2 by simp
  qed
  show ?thesis
    unfolding Let_def
    using A B C D E
    unfolding s1_def c1_def c2_def t1_def by blast
qed

theorem discrete_page_turn_witness:
  "handleWheel fittedState (wheelClick 1 1000)
     = fittedState\<lparr>lastPageChangeTime := 1000, currentPage := 2\<rparr>
   \<and> handleWheel (handleWheel fittedState (wheelClick 1 1000)) (wheelClick (- 1) 1100)
       = handleWheel fittedState (wheelClick 1 1000)
   \<and> currentPage (handleWheel (handleWheel fittedState (wheelClick 1 1000))
        (wheelClick (- 1) 1200)) = 1
   \<and> lastPageChangeTime (handleWheel (handleWheel fittedState (wheelClick 1 1000))
        (wheelClick (- 1) 1200)) = 1200
   \<and> currentPage (handleWheel (handleWheel fittedState (wheelClick 1 1000))
        (wheelClick 1 1200)) = 2
   \<and> handleWheel fittedState (wheelClick (- 1) 1000) = fittedState
   \<and> handleWheel fittedState (wheelClick 1 100) = fittedState"
proof -
  note f = fittedState_sel
  have i: "pageTurnIntent fittedState (wheelClick dy t)" if "dy \<noteq> 0" for dy t
    using that by (rule fitted_pageTurnIntent)
  have m: "deltaMode (wheelClick dy t) = DOM_DELTA_LINE" for dy t
    by (simp add: scroll_sel)
  have nz: "(1::real) \<noteq> 0" "(- 1::real) \<noteq> 0" by simp_all
  note near = discrete_page_turn [OF i [OF nz(1)] m i [OF nz(2)] m, of 1000 1100,
      unfolded Let_def scroll_sel f, simplified]
    and far = discrete_page_turn [OF i [OF nz(1)] m i [OF nz(2)] m, of 1000 1200,
      unfolded Let_def scroll_sel f, simplified]
    and top = discrete_page_turn [OF i [OF nz(1)] m i [OF nz(1)] m, of 1000 1200,
      unfolded Let_def scroll_sel f, simplified]
    and bottom = discrete_page_turn [OF i [OF nz(2)] m i [OF nz(1)] m, of 1000 1200,
      unfolded Let_def scroll_sel f, simplified]
    and cooling = discrete_page_turn [OF i [OF nz(1)] m i [OF nz(1)] m, of 100 1200,
      unfolded Let_def scroll_sel f, simplified]
  define s1 where "s1 = handleWheel fittedState (wheelClick 1 1000)"
  have a: "s1 = fittedState\<lparr>lastPageChangeTime := 1000, currentPage := 2\<rparr>"
    and b: "handleWheel s1 (wheelClick (- 1) 1100) = s1"
    and p: "currentPage s1 = 2"
    using near unfolding s1_def by blast+
  have q: "currentPage (handleWheel s1 (wheelClick (- 1) 1200))
             = max 1 (min 2 (currentPage s1 - 1))"
    and r: "currentPage (handleWheel s1 (wheelClick (- 1) 1200)) \<noteq> currentPage s1 \<longrightarrow>
            lastPageChangeTime (handleWheel s1 (wheelClick (- 1) 1200)) = 1200"
    using far unfolding s1_def by blast+
  have c: "currentPage (handleWheel s1 (wheelClick (- 1) 1200)) = 1" using q p by simp
  then have d: "lastPageChangeTime (handleWheel s1 (wheelClick (- 1) 1200)) = 1200"
    using r p by simp
  have "currentPage (handleWheel s1 (wheelClick 1 1200))
             = max 1 (min 2 (currentPage s1 + 1))"
    using top unfolding s1_def by blast
  then have e: "currentPage (handleWheel s1 (wheelClick 1 1200)) = 2" using p by simp
  have g: "handleWheel fittedState (wheelClick (- 1) 1000) = fittedState"
    using bottom by blast
  show ?thesis
    using a b c d e g cooling unfolding s1_def by blast
qed

text \<open>
  C6 as stated fails at the last page: in \<open>lastPageState\<close> (page 2 of 2, last page change
  at time 1000) the wheel click forward at time 2000 has its cooldown elapsed, but the
  time stamp stays 1000; so the click backward 100 ms later is not a no-op: it turns to
  page 1.
\<close>

theorem discrete_boundary_counterexample:
  "pageTurnIntent lastPageState (wheelClick 1 2000)
   \<and> currentPage lastPageState = 2 \<and> refNumPages lastPageState = 2
   \<and> now (wheelClick 1 2000) - lastPageChangeTime lastPageState > 150
   \<and> lastPageChangeTime (handleWheel lastPageState (wheelClick 1 2000)) = 1000
   \<and> pageTurnIntent (handleWheel lastPageState (wheelClick 1 2000)) (wheelClick (- 1) 2100)
   \<and> now (wheelClick (- 1) 2100) - now (wheelClick 1 2000) \<le> 150
   \<and> currentPage (handleWheel lastPageState (wheelClick 1 2000)) = 2
   \<and> currentPage (handleWheel (handleWheel lastPageState (wheelClick 1 2000))
        (wheelClick (- 1) 2100)) = 1"
proof -
  have hw: "handleWheel fittedState (wheelClick 1 1000)
      = fittedState\<lparr>lastPageChangeTime := 1000, currentPage := 2\<rparr>"
    by (simp add: pageTurnIntent_handleWheel [OF fitted_pageTurnIntent(2)] discrete_turn scroll_sel
        fittedState_sel PAGE_CHANGE_COOLDOWN_def)
  have l: "lastPageState = fittedState\<lparr>lastPageChangeTime := 1000, currentPage := 2\<rparr>"
    by (simp add: lastPageState_def run_def step_def hw)
       (simp add: pageResetEffect_def numPages_def fittedState_eq squareDoc_def)
  have sel: "currentPage lastPageState = 2" "refNumPages lastPageState = 2"
    "lastPageChangeTime lastPageState = 1000"
    by (simp_all add: l refNumPages_def fittedState_eq squareDoc_def)
  have i: "pageTurnIntent lastPageState (wheelClick dy t)" if "dy \<noteq> 0" for dy t
    using fitted_pageTurnIntent(2) [OF that, of t]
      pageTurnIntent_cong [of lastPageState fittedState "wheelClick dy t"]
    by (simp add: l)
  have s1: "handleWheel lastPageState (wheelClick 1 2000) = lastPageState"
    by (simp add: pageTurnIntent_handleWheel [OF i] discrete_turn scroll_sel sel)
  have s2: "currentPage (handleWheel lastPageState (wheelClick (- 1) 2100)) = 1"
    by (simp add: pageTurnIntent_handleWheel [OF i] discrete_turn scroll_sel sel
        PAGE_CHANGE_COOLDOWN_def)
  show ?thesis
    unfolding s1 using s2 i [of 1 2000] i [of "- 1" 2100]
    by (simp add: sel scroll_sel)
qed

section \<open>Resets of the page-change accumulator\<close>

text \<open>
  C7 (amended). After a wheel event without modifier, the accumulator is zero whenever
  the event committed a vertical pan (alone or together with a horizontal pan), or was a
  continuous page-turn event whose total reached the threshold with the cooldown elapsed
  (the page turn being committed, or rejected at a boundary). A discrete page-turn event,
  committed or rejected, leaves the accumulator as it was.
\<close>

theorem accumulator_reset:
  "(\<not> ctrlKey e1 \<and> pansVertically s1 e1 \<longrightarrow> pageChangeAccumulator (handleWheel s1 e1) = 0)
   \<and> (pageTurnIntent s2 e2 \<and> deltaMode e2 \<noteq> DOM_DELTA_LINE
        \<and> \<bar>pageChangeAccumulator s2 + deltaY e2\<bar> \<ge> 20
        \<and> now e2 - lastPageChangeTime s2 > 150 \<longrightarrow>
        pageChangeAccumulator (handleWheel s2 e2) = 0)
   \<and> (pageTurnIntent s4 e4 \<and> deltaMode e4 = DOM_DELTA_LINE \<longrightarrow>
        pageChangeAccumulator (handleWheel s4 e4) = pageChangeAccumulator s4)"
proof -
  have a: "pageChangeAccumulator (handleWheel s1 e1) = 0" if "\<not> ctrlKey e1" "pansVertically s1 e1"
    using that by (simp add: handleWheel_def Let_def)
  have b: "pageChangeAccumulator (handleWheel s2 e2) = 0"
    if "pageTurnIntent s2 e2" "deltaMode e2 \<noteq> DOM_DELTA_LINE"
      "\<bar>pageChangeAccumulator s2 + deltaY e2\<bar> \<ge> 20" "now e2 - lastPageChangeTime s2 > 150"
    using that
    by (simp add: pageTurnIntent_handleWheel wheelPageTurn_def Let_def PAGE_CHANGE_THRESHOLD_def
        PAGE_CHANGE_COOLDOWN_def split: option.splits)
  have d: "pageChangeAccumulator (handleWheel s4 e4) = pageChangeAccumulator s4"
    if "pageTurnIntent s4 e4" "deltaMode e4 = DOM_DELTA_LINE"
    using that by (simp add: pageTurnIntent_handleWheel discrete_turn)
  show ?thesis using a b d by blast
qed

lemma pendingState_eq: "pendingState = fittedState\<lparr>pageChangeAccumulator := 10\<rparr>"
proof -
  have "handleWheel fittedState (trackpad 0 10 500) = fittedState\<lparr>pageChangeAccumulator := 10\<rparr>"
    by (simp add: pageTurnIntent_handleWheel [OF fitted_pageTurnIntent(1)] wheelPageTurn_def
        Let_def scroll_sel fittedState_sel PAGE_CHANGE_THRESHOLD_def)
  then show ?thesis
    by (simp add: pendingState_def run_def step_def)
       (simp add: pageResetEffect_def numPages_def fittedState_eq squareDoc_def)
qed

lemma pendingZoomedState_eq: "pendingZoomedState = zoomedState\<lparr>pageChangeAccumulator := 10\<rparr>"
  by (simp add: pendingZoomedState_def pendingState_eq fittedState_eq zoomedState_eq squareDoc_def
      run_simps)

lemma pendingZoomed_pans:
  "pansHorizontally pendingZoomedState (trackpad 5 0 900)"
  "\<not> pansVertically pendingZoomedState (trackpad 5 0 900)"
  "pansVertically pendingZoomedState (trackpad 0 7 900)"
  by (simp_all add: pansHorizontally_def pansVertically_def getOverflowState_def scroll_sel
      pendingZoomedState_eq zoomedState_eq squareDoc_def window_def EDGE_PADDING_def Let_def)

theorem accumulator_reset_witness:
  "pansVertically pendingZoomedState (trackpad 0 7 900)
   \<and> pageChangeAccumulator pendingZoomedState = 10
   \<and> pageChangeAccumulator (handleWheel pendingZoomedState (trackpad 0 7 900)) = 0
   \<and> pageTurnIntent pendingState (trackpad 0 10 600)
   \<and> pageChangeAccumulator pendingState = 10
   \<and> pageChangeAccumulator (handleWheel pendingState (trackpad 0 10 600)) = 0
   \<and> pageTurnIntent pendingState (wheelClick 1 1000)
   \<and> pageChangeAccumulator (handleWheel pendingState (wheelClick 1 1000)) = 10"
proof -
  have acc: "pageChangeAccumulator pendingZoomedState = 10" "pageChangeAccumulator pendingState = 10"
    "lastPageChangeTime pendingState = 0"
    by (simp_all add: pendingZoomedState_eq pendingState_eq fittedState_sel)
  have i: "pageTurnIntent pendingState (trackpad 0 10 600)"
    "pageTurnIntent pendingState (wheelClick 1 1000)"
    using fitted_pageTurnIntent(1) [of 10 0 600] fitted_pageTurnIntent(2) [of 1 1000]
      pageTurnIntent_cong [of pendingState fittedState "trackpad 0 10 600"]
      pageTurnIntent_cong [of pendingState fittedState "wheelClick 1 1000"]
    by (simp_all add: pendingState_eq)
  note T = accumulator_reset [where ?e1.0 = "trackpad 0 7 900" and ?s1.0 = pendingZoomedState
      and ?e2.0 = "trackpad 0 10 600" and ?s2.0 = pendingState
      and ?e4.0 = "wheelClick 1 1000" and ?s4.0 = pendingState]
  show ?thesis
    using T pendingZoomed_pans i by (simp add: acc scroll_sel)
qed

text \<open>What the source does on a pan that is horizontal only: the reset sits in the
  vertical panning block, so the accumulator is not touched.\<close>

lemma horizontal_only_pan_accumulator:
  assumes "\<not> ctrlKey e" "pansHorizontally s e" "\<not> pansVertically s e"
  shows "pageChangeAccumulator (handleWheel s e) = pageChangeAccumulator s"
  using assms by (simp add: handleWheel_def Let_def)

text \<open>
  C7 as stated fails for a pan that is horizontal only: in \<open>pendingZoomedState\<close> the
  accumulator holds 10; the horizontal scroll by 5 commits a pan (the translate moves
  from (-101, -101) to (-106, -101)) and the accumulator still holds 10. It also fails
  for a discrete page turn: the wheel click in \<open>pendingState\<close> turns to page 2 and leaves
  the accumulator at 10.
\<close>

theorem horizontal_pan_keeps_accumulator_counterexample:
  "translate pendingZoomedState = \<lparr>pt_x = Num (- 101), pt_y = Num (- 101)\<rparr>
   \<and> translate (handleWheel pendingZoomedState (trackpad 5 0 900))
        = \<lparr>pt_x = Num (- 106), pt_y = Num (- 101)\<rparr>
   \<and> pageChangeAccumulator (handleWheel pendingZoomedState (trackpad 5 0 900)) = 10
   \<and> currentPage pendingState = 1
   \<and> currentPage (handleWheel pendingState (wheelClick 1 1000)) = 2
   \<and> pageChangeAccumulator (handleWheel pendingState (wheelClick 1 1000)) = 10"
proof -
  have a: "translate pendingZoomedState = \<lparr>pt_x = Num (- 101), pt_y = Num (- 101)\<rparr>"
    by (simp add: pendingZoomedState_eq zoomedState_eq)
  have b: "handleWheel pendingZoomedState (trackpad 5 0 900)
     = pendingZoomedState\<lparr>translate := \<lparr>pt_x = Num (- 106), pt_y = Num (- 101)\<rparr>\<rparr>"
    using pendingZoomed_pans(1,2)
    by (simp add: handleWheel_def Let_def scroll_sel)
       (simp add: pendingZoomedState_eq zoomedState_eq clampTranslate_def squareDoc_def window_def
         EDGE_PADDING_def Let_def)
  have i: "pageTurnIntent pendingState (wheelClick 1 1000)"
    using fitted_pageTurnIntent(2) [of 1 1000]
      pageTurnIntent_cong [of pendingState fittedState "wheelClick 1 1000"]
    by (simp add: pendingState_eq)
  have c: "handleWheel pendingState (wheelClick 1 1000)
     = pendingState\<lparr>lastPageChangeTime := 1000, currentPage := 2\<rparr>"
    by (simp add: pageTurnIntent_handleWheel [OF i] discrete_turn scroll_sel)
       (simp add: pendingState_eq fittedState_eq refNumPages_def squareDoc_def
         PAGE_CHANGE_COOLDOWN_def)
  show ?thesis
    unfolding b c using a by (simp add: pendingZoomedState_eq zoomedState_eq pendingState_eq fittedState_sel)
qed

section \<open>The current page\<close>

lemma wheelZoom_page:
  "currentPage (wheelZoom s e) = currentPage s \<and> svgDoc (wheelZoom s e) = svgDoc s"
  by (simp add: wheelZoom_def Let_def)

lemma wheelPageTurn_page:
  "svgDoc (wheelPageTurn s e) = svgDoc s \<and>
   (currentPage (wheelPageTurn s e) = currentPage s \<or>
    (1 \<le> currentPage (wheelPageTurn s e) \<and> currentPage (wheelPageTurn s e) \<le> refNumPages s))"
  by (simp add: wheelPageTurn_def Let_def refNumPages_def split: option.splits)

lemma handleWheel_page:
  "svgDoc (handleWheel s e) = svgDoc s \<and>
   (currentPage (handleWheel s e) = currentPage s \<or>
    (1 \<le> currentPage (handleWheel s e) \<and> currentPage (handleWheel s e) \<le> refNumPages s))"
  using wheelPageTurn_page [of s e] wheelPageTurn_page [of "s\<lparr>pageChangeAccumulator := 0\<rparr>" e]
  by (simp add: handleWheel_def Let_def wheelZoom_page refNumPages_def)

lemma unchanged_page:
  "currentPage (handleZoomIn s t) = currentPage s \<and> svgDoc (handleZoomIn s t) = svgDoc s"
  "currentPage (handleZoomOut s t) = currentPage s \<and> svgDoc (handleZoomOut s t) = svgDoc s"
  "currentPage (handleFit s t) = currentPage s \<and> svgDoc (handleFit s t) = svgDoc s"
  "currentPage (fitToViewport s) = currentPage s \<and> svgDoc (fitToViewport s) = svgDoc s"
  "currentPage (animate a t s) = currentPage s \<and> svgDoc (animate a t s) = svgDoc s"
  "currentPage (handleResize s vp) = currentPage s \<and> svgDoc (handleResize s vp) = svgDoc s"
  "currentPage (handlePointerDown s b ob cx cy) = currentPage s
   \<and> svgDoc (handlePointerDown s b ob cx cy) = svgDoc s"
  "currentPage (handlePointerMove s cx cy) = currentPage s
   \<and> svgDoc (handlePointerMove s cx cy) = svgDoc s"
  "currentPage (handlePointerUp s) = currentPage s \<and> svgDoc (handlePointerUp s) = svgDoc s"
  by (simp_all add: handleZoomIn_def handleZoomOut_def handleFit_def animateZoom_def Let_def
      fitToViewport_def animate_def handleResize_def handlePointerDown_def handlePointerMove_def
      handlePointerUp_def split: option.splits)

lemma pageInv_same:
  "pageInv s \<Longrightarrow> svgDoc s' = svgDoc s \<Longrightarrow>
   currentPage s' = currentPage s \<or> (1 \<le> currentPage s' \<and> currentPage s' \<le> refNumPages s) \<Longrightarrow>
   pageInv s'"
  by (auto simp: pageInv_def refNumPages_def split: option.splits)

lemma handleKeyDown_pageInv:
  "pageInv s \<Longrightarrow> pageInv (handleKeyDown s e f t)"
  by (auto simp: handleKeyDown_def Let_def unchanged_page pageInv_def refNumPages_def
      split: option.splits)

lemma step_pageInv:
  assumes "pageInv s" "docsNonEmpty ev"
  shows "pageInv (step s ev)"
proof -
  have eff: "pageInv (pageResetEffect s')" if "pageInv s'" for s'
    using that by (auto simp: pageInv_def pageResetEffect_def numPages_def split: option.splits)
  show ?thesis
  proof (cases ev)
    case (Wheel e)
    then show ?thesis
      using handleWheel_page [of s e] assms(1)
      by (auto simp: step_def intro!: eff pageInv_same [where s = s])
  next
    case (KeyDown e f t)
    then show ?thesis using assms(1) by (simp add: step_def eff handleKeyDown_pageInv)
  next
    case (SetDoc d)
    then show ?thesis
      using assms
      by (auto simp: step_def setDoc_def pageInv_def pageResetEffect_def numPages_def
          docsNonEmpty_def Suc_le_eq split: option.splits)
  next
    case ClickPrev
    then show ?thesis using assms(1)
      by (auto simp: step_def goToPrevPage_def pageResetEffect_def numPages_def pageInv_def
          split: option.splits)
  next
    case ClickNext
    then show ?thesis using assms(1)
      by (auto simp: step_def goToNextPage_def pageResetEffect_def numPages_def refNumPages_def
          pageInv_def split: option.splits)
  qed (use assms(1) in \<open>auto simp: step_def unchanged_page
         intro!: eff pageInv_same [where s = s] split: option.splits\<close>)
qed

lemma run_pageInv:
  "pageInv s \<Longrightarrow> \<forall>ev \<in> set evs. docsNonEmpty ev \<Longrightarrow> pageInv (run s evs)"
  unfolding run_def
  by (induction evs arbitrary: s) (simp_all add: step_pageInv)

text \<open>
  C9 (amended). In every state reached from the initial state by events that supply
  only documents with at least one page (or no document): 1 \<le> currentPage; when
  numPages \<ge> 1, currentPage \<le> numPages and the page indicator shows currentPage; when
  numPages = 0 the page indicator shows 0 (the state variable itself stays at least 1).
\<close>

theorem currentPage_bounds:
  assumes "\<forall>ev \<in> set evs. docsNonEmpty ev"
  shows "(let s = run (initialState vp) evs
          in 1 \<le> currentPage s
           \<and> (numPages s \<ge> 1 \<longrightarrow> currentPage s \<le> numPages s \<and> displayedPage s = currentPage s)
           \<and> (numPages s = 0 \<longrightarrow> displayedPage s = 0))"
proof -
  have "pageInv (initialState vp)" by (simp add: pageInv_def initialState_def)
  then have "pageInv (run (initialState vp) evs)" using assms by (rule run_pageInv)
  then show ?thesis
    by (auto simp: Let_def pageInv_def numPages_def displayedPage_def split: option.splits)
qed

lemma thirdPageState_sel:
  "currentPage thirdPageState = 3" "numPages thirdPageState = 3"
  "svgDoc thirdPageState = Some threePageDoc"
  by (simp_all add: thirdPageState_def pressKey_def handleKeyDown_def threePageDoc_def run_simps)

theorem currentPage_bounds_witness:
  "docsNonEmpty (SetDoc (Some threePageDoc)) \<and> docsNonEmpty FitFrame
   \<and> docsNonEmpty (pressKey ''End'') \<and> docsNonEmpty (SetDoc None)
   \<and> numPages thirdPageState = 3 \<and> currentPage thirdPageState = 3
   \<and> displayedPage thirdPageState = 3
   \<and> numPages (run thirdPageState [SetDoc None]) = 0
   \<and> currentPage (run thirdPageState [SetDoc None]) = 3
   \<and> displayedPage (run thirdPageState [SetDoc None]) = 0"
proof -
  let ?evs = "[SetDoc (Some threePageDoc), FitFrame, pressKey ''End'']"
  have d: "docsNonEmpty (SetDoc (Some threePageDoc))" "docsNonEmpty FitFrame"
    "docsNonEmpty (pressKey ''End'')" "docsNonEmpty (SetDoc None)"
    by (simp_all add: docsNonEmpty_def threePageDoc_def pressKey_def)
  then have h: "\<forall>ev \<in> set ?evs. docsNonEmpty ev" "\<forall>ev \<in> set (?evs @ [SetDoc None]). docsNonEmpty ev"
    by simp_all
  have r: "run (initialState (window 800 600)) (?evs @ [SetDoc None])
             = run thirdPageState [SetDoc None]"
    by (simp add: thirdPageState_def run_def)
  have n: "numPages (run thirdPageState [SetDoc None]) = 0"
    "currentPage (run thirdPageState [SetDoc None]) = 3"
    by (simp_all add: run_def step_def setDoc_def pageResetEffect_def numPages_def
        thirdPageState_sel)
  show ?thesis
    using currentPage_bounds [OF h(1), of "window 800 600"]
      currentPage_bounds [OF h(2), of "window 800 600"] d
    unfolding r thirdPageState_def [symmetric] Let_def
    by (simp add: thirdPageState_sel n)
qed

text \<open>
  C9 as stated fails in the initial state, where there is no document: numPages = 0
  and currentPage = 1. It fails in the same way after a document without pages is
  supplied, and after the three-page document is taken away on page 3.
\<close>

theorem currentPage_without_document_counterexample:
  "numPages (run (initialState (window 800 600)) []) = 0
   \<and> currentPage (run (initialState (window 800 600)) []) = 1
   \<and> numPages (run (initialState (window 800 600)) [SetDoc (Some emptyDoc)]) = 0
   \<and> currentPage (run (initialState (window 800 600)) [SetDoc (Some emptyDoc)]) = 1
   \<and> numPages (run thirdPageState [SetDoc None]) = 0
   \<and> currentPage (run thirdPageState [SetDoc None]) = 3"
  by (simp add: run_def step_def setDoc_def pageResetEffect_def numPages_def initialState_def
      emptyDoc_def thirdPageState_sel)

section \<open>A document with fewer pages\<close>

text \<open>
  C10. When a document is supplied such that currentPage exceeds its page count and
  the page count is positive, currentPage becomes 1 (not the page count); when currentPage
  is within the new page count it is unchanged.
\<close>

theorem page_reset_on_shorter_document:
  "(currentPage s1 > int (length (pages d1)) \<and> length (pages d1) > 0 \<longrightarrow>
      currentPage (step s1 (SetDoc (Some d1))) = 1)
   \<and> (currentPage s2 \<le> int (length (pages d2)) \<longrightarrow>
      currentPage (step s2 (SetDoc (Some d2))) = currentPage s2)"
  by (simp add: step_def setDoc_def pageResetEffect_def numPages_def)

theorem page_reset_on_shorter_document_witness:
  "currentPage thirdPageState = 3 \<and> length (pages squareDoc) = 2
   \<and> currentPage (step thirdPageState (SetDoc (Some squareDoc))) = 1
   \<and> length (pages threePageDoc) = 3
   \<and> currentPage (step thirdPageState (SetDoc (Some threePageDoc))) = 3"
  using page_reset_on_shorter_document [where ?s1.0 = thirdPageState and ?d1.0 = squareDoc
      and ?s2.0 = thirdPageState and ?d2.0 = threePageDoc]
  by (simp add: thirdPageState_sel squareDoc_def threePageDoc_def)

section \<open>Direct manipulation during an animation\<close>

text \<open>Which handlers cancel the scheduled animation frame: the ctrl-wheel branch does,
  the pan branch of the wheel handler and the pointer handlers do not.\<close>

lemma wheel_cancels_animation_iff_ctrl:
  "zoomAnimation (handleWheel s e) = (if ctrlKey e then None else zoomAnimation s)"
  by (simp add: handleWheel_def wheelZoom_def wheelPageTurn_def Let_def split: option.splits)

lemma pointer_keeps_animation:
  "zoomAnimation (handlePointerDown s b ob cx cy) = zoomAnimation s"
  "zoomAnimation (handlePointerMove s cx cy) = zoomAnimation s"
  "zoomAnimation (handlePointerUp s) = zoomAnimation s"
  by (simp_all add: handlePointerDown_def handlePointerMove_def handlePointerUp_def Let_def)

lemma animatingState_eq:
  "animatingState =
     \<lparr>currentPage = 1, scale = 5 / 4, translate = \<lparr>pt_x = Num (- 101), pt_y = Num (- 101)\<rparr>,
      isFitMode = False, isDragging = True, lastPointer = \<lparr>client_x = 0, client_y = 0\<rparr>,
      pageChangeAccumulator = 0, lastPageChangeTime = 0,
      zoomAnimation =
        Some \<lparr>startScale = 5 / 4, startX = Num (- 101), startY = Num (- 101), startTime = 300,
              targetScale = 25 / 16, targetX = Num (- (1029 / 4)), targetY = Num (- (1029 / 4)),
              duration = 200\<rparr>,
      pendingFits = 0, svgDoc = Some squareDoc, viewport = window 1048 1048\<rparr>"
  by (simp add: animatingState_def zoomedState_eq squareDoc_def run_simps)

text \<open>
  C8, evaluated where it fails. In \<open>animatingState\<close> a zoom animation is in flight and a
  drag has begun. The pointer move to (50, 50) commits the translate (-51, -51) and
  leaves the animation scheduled; the frame at time 400 then overwrites scale and
  translate with values interpolated from the start state the animation captured before
  the drag. A wheel pan behaves in the same way. Only the ctrl-wheel zoom cancels the
  animation.
\<close>

theorem drag_during_animation_overwritten:
  "zoomAnimation animatingState \<noteq> None \<and> isDragging animatingState
   \<and> translate (handlePointerMove animatingState 50 50)
        = \<lparr>pt_x = Num (- 51), pt_y = Num (- 51)\<rparr>
   \<and> zoomAnimation (handlePointerMove animatingState 50 50) = zoomAnimation animatingState
   \<and> scale (step (handlePointerMove animatingState 50 50) (AnimationFrame 400)) = 195 / 128
   \<and> translate (step (handlePointerMove animatingState 50 50) (AnimationFrame 400))
        = \<lparr>pt_x = Num (- (7607 / 32)), pt_y = Num (- (7607 / 32))\<rparr>
   \<and> translate (handleWheel animatingState (trackpad 0 7 0))
        = \<lparr>pt_x = Num (- 101), pt_y = Num (- 108)\<rparr>
   \<and> zoomAnimation (handleWheel animatingState (trackpad 0 7 0)) = zoomAnimation animatingState
   \<and> translate (step (handleWheel animatingState (trackpad 0 7 0)) (AnimationFrame 400))
        = \<lparr>pt_x = Num (- (7607 / 32)), pt_y = Num (- (7607 / 32))\<rparr>
   \<and> zoomAnimation (handleWheel animatingState (pinch 0)) = None"
proof -
  have a: "zoomAnimation animatingState \<noteq> None" "isDragging animatingState"
    by (simp_all add: animatingState_eq)
  have b: "handlePointerMove animatingState 50 50
      = animatingState\<lparr>lastPointer := \<lparr>client_x = 50, client_y = 50\<rparr>,
          translate := \<lparr>pt_x = Num (- 51), pt_y = Num (- 51)\<rparr>\<rparr>"
    by (simp add: animatingState_eq squareDoc_def run_simps)
  have c: "handleWheel animatingState (trackpad 0 7 0)
      = animatingState\<lparr>translate := \<lparr>pt_x = Num (- 101), pt_y = Num (- 108)\<rparr>\<rparr>"
    by (simp add: animatingState_eq handleWheel_def pansHorizontally_def pansVertically_def
        getOverflowState_def trackpad_def squareDoc_def run_simps)
  have d: "zoomAnimation (handleWheel animatingState (pinch 0)) = None"
    by (simp add: wheel_cancels_animation_iff_ctrl pinch_def)
  show ?thesis
    unfolding b c using a d
    by (simp add: animatingState_eq squareDoc_def run_simps)
qed

end
